theory Spec2Isabelle
  imports Complex_Main
begin

section \<open>JavaScript values\<close>

text \<open>
  The adapter \<open>modules/stroeerCoreBidAdapter.js\<close> works on dynamically typed values: bid
  parameters written by a publisher, and a server response parsed from JSON. They are
  modelled by one datatype. An object is a map from property names to values (a property
  may be present with the value \<open>undefined\<close>); the order of the keys plays no role in what
  is proved here. Numbers are real numbers: \<open>NaN\<close> and the infinities, which JSON cannot
  carry, are outside the model.
\<close>

datatype error = TypeError | SecurityError

datatype jsval = Undefined | Null | Bool bool | Num real | Str string
  | Arr "jsval list" | Obj "string \<Rightarrow> jsval option"

text \<open>\<open>ToBoolean\<close>: what \<open>if (v)\<close>, \<open>!v\<close>, \<open>a && b\<close>, \<open>a || b\<close> and \<open>c ? x : y\<close> test.\<close>

fun truthy :: "jsval \<Rightarrow> bool" where
  "truthy Undefined = False"
| "truthy Null = False"
| "truthy (Bool b) = b"
| "truthy (Num n) = (n \<noteq> 0)"
| "truthy (Str s) = (s \<noteq> [])"
| "truthy (Arr xs) = True"
| "truthy (Obj m) = True"

text \<open>The \<open>typeof\<close> operator; \<open>typeof null\<close> is \<open>"object"\<close>.\<close>

fun typeof :: "jsval \<Rightarrow> string" where
  "typeof Undefined = ''undefined''"
| "typeof Null = ''object''"
| "typeof (Bool b) = ''boolean''"
| "typeof (Num n) = ''number''"
| "typeof (Str s) = ''string''"
| "typeof (Arr xs) = ''object''"
| "typeof (Obj m) = ''object''"

text \<open>
  Property read \<open>v.k\<close>. Reading a property of \<open>undefined\<close> or \<open>null\<close> throws a TypeError;
  a missing property reads as \<open>undefined\<close>. The adapter reads only named properties
  (\<open>sid\<close>, \<open>ssat\<close>, \<open>banner\<close>, \<open>bids\<close>, ...), never an index or \<open>length\<close>, so a
  primitive or an array has none of them. \<open>readProp\<close> is the value read where the read
  does not throw.
\<close>

fun readProp :: "jsval \<Rightarrow> string \<Rightarrow> jsval" where
  "readProp (Obj m) k = (case m k of None \<Rightarrow> Undefined | Some v \<Rightarrow> v)"
| "readProp v k = Undefined"

definition getProp :: "jsval \<Rightarrow> string \<Rightarrow> error + jsval" where
  "getProp v k = (if v = Undefined \<or> v = Null then Inl TypeError else Inr (readProp v k))"

text \<open>Sequencing of a computation that may throw.\<close>

definition andThen :: "error + 'a \<Rightarrow> ('a \<Rightarrow> error + 'b) \<Rightarrow> error + 'b" where
  "andThen m f = (case m of Inl e \<Rightarrow> Inl e | Inr x \<Rightarrow> f x)"

section \<open>Constants of the adapter\<close>

definition BANNER :: string where "BANNER = ''banner''"
definition DEFAULT_HOST :: string where "DEFAULT_HOST = ''hb.adscale.de''"
definition DEFAULT_PATH :: string where "DEFAULT_PATH = ''/dsh''"
definition DEFAULT_PORT :: string where "DEFAULT_PORT = ''''"

section \<open>Bid requests and their validation\<close>

text \<open>
  A bid request is an object of the host; the fields the adapter reads are kept as they
  come, untyped, except the ad-unit code, which is the id of a DOM element.
\<close>

record bidRequest =
  bidId :: jsval
  adUnitCode :: string
  mediaTypes :: jsval
  mediaType :: jsval
  sizes :: jsval
  params :: jsval
  userId :: jsval

text \<open>
  Modelled from the spec: \<open>utils.isStr\<close> of \<open>src/utils.js\<close> is not among the sources;
  the spec reads the rule that uses it as "\<open>params.sid\<close> must be a string".
\<close>

fun isStr :: "jsval \<Rightarrow> bool" where
  "isStr (Str s) = True"
| "isStr v = False"

text \<open>
  \<open>isBanner\<close> returns the value of its \<open>||\<close> chain, which the validator then tests for
  truthiness: \<open>(!mediaTypes && !mediaType) || (mediaTypes && mediaTypes.banner) ||
  mediaType === BANNER\<close>.
\<close>

definition isBanner :: "bidRequest \<Rightarrow> error + jsval" where
  "isBanner bidReq =
     (if \<not> truthy (mediaTypes bidReq) \<and> \<not> truthy (mediaType bidReq) then Inr (Bool True)
      else andThen (if truthy (mediaTypes bidReq) then getProp (mediaTypes bidReq) ''banner''
                    else Inr (mediaTypes bidReq))
        (\<lambda>b. if truthy b then Inr b else Inr (Bool (mediaType bidReq = Str BANNER))))"

text \<open>
  A validator is made of a check and of the message it logs when the check fails.
  \<open>utils.logError\<close> is modelled by the list of logged messages, each the bid id that the
  template string interpolates and the text that follows it. A check that throws leaves
  \<open>createValidator\<close> before anything is logged.
\<close>

type_synonym logged = "jsval \<times> string"
type_synonym validator = "bidRequest \<Rightarrow> (error + bool) \<times> logged list"

definition createValidator ::
  "(bidRequest \<Rightarrow> error + jsval) \<Rightarrow> (bidRequest \<Rightarrow> logged) \<Rightarrow> validator" where
  "createValidator checkFn errorMsgFn bidRequest =
     (case checkFn bidRequest of
        Inl e \<Rightarrow> (Inl e, [])
      | Inr v \<Rightarrow> if truthy v then (Inr True, [])
                 else (Inr False, [errorMsgFn bidRequest]))"

definition validators :: "validator list" where
  "validators =
    [createValidator (\<lambda>bidReq. isBanner bidReq)
       (\<lambda>bidReq. (bidId bidReq, ''is not a banner'')),
     createValidator (\<lambda>bidReq. Inr (Bool (typeof (params bidReq) = ''object'')))
       (\<lambda>bidReq. (bidId bidReq, ''does not have custom params'')),
     createValidator (\<lambda>bidReq. andThen (getProp (params bidReq) ''sid'') (\<lambda>sid. Inr (Bool (isStr sid))))
       (\<lambda>bidReq. (bidId bidReq, ''does not have a sid string field'')),
     createValidator (\<lambda>bidReq. andThen (getProp (params bidReq) ''ssat'')
          (\<lambda>ssat. Inr (Bool (ssat = Undefined \<or> ssat = Num 1 \<or> ssat = Num 2))))
       (\<lambda>bidReq. (bidId bidReq, ''does not have a valid ssat value (must be 1 or 2)''))]"

text \<open>
  \<open>Array.prototype.every\<close>: the validators run in order and the first one that returns
  false ends the run; one that throws ends it with the exception.
\<close>

fun every :: "validator list \<Rightarrow> bidRequest \<Rightarrow> (error + bool) \<times> logged list" where
  "every [] bidRequest = (Inr True, [])"
| "every (f # fs) bidRequest =
     (case f bidRequest of
        (Inr True, l) \<Rightarrow> (case every fs bidRequest of (r, l') \<Rightarrow> (r, l @ l'))
      | (r, l) \<Rightarrow> (r, l))"

definition isBidRequestValid :: "bidRequest \<Rightarrow> (error + bool) \<times> logged list" where
  "isBidRequestValid bidRequest = every validators bidRequest"

section \<open>The browsing contexts\<close>

text \<open>
  An element is known by the rectangle that \<open>getBoundingClientRect\<close> returns, of which
  the adapter reads \<open>top\<close> and \<open>height\<close>.
\<close>

record domRect =
  top' :: real
  height :: real

record element =
  getBoundingClientRect :: domRect

text \<open>
  What the adapter reads of a window it may read: \<open>innerHeight\<close>, \<open>location.protocol\<close>,
  \<open>location.href\<close>, \<open>document.referrer\<close>, \<open>document.getElementById\<close> (\<open>None\<close> is
  \<open>null\<close>), the window's own \<open>referrer\<close> property, \<open>frameElement\<close> (\<open>None\<close> is \<open>null\<close>,
  as for a frame embedded by a page of another origin) and the global \<open>yieldlove_ab\<close>.
\<close>

record windowData =
  innerHeight :: real
  location_protocol :: string
  location_href :: string
  document_referrer :: jsval
  document_getElementById :: "string \<Rightarrow> element option"
  referrer :: jsval
  frameElement :: "element option"
  yieldlove_ab :: jsval

text \<open>
  A window is its content and its parent. The content is \<open>None\<close> for a window of another
  origin: every read of it but \<open>parent\<close> and \<open>top\<close> throws a SecurityError. The parent is
  \<open>None\<close> for the top-level window, whose \<open>parent\<close> is the window itself; so
  \<open>win !== win.parent\<close> is \<open>parent win \<noteq> None\<close>, and a window of the chain is the top
  one exactly when it has no parent.
\<close>

datatype window = Window (content: "windowData option") (parent: "window option")

definition readWindow :: "window \<Rightarrow> error + windowData" where
  "readWindow win = (case content win of None \<Rightarrow> Inl SecurityError | Some d \<Rightarrow> Inr d)"

text \<open>
  The ambient state of a call: the current window, which is always readable, and its
  parent; the clock \<open>Date.now()\<close>; and \<open>localStorage\<close>, \<open>None\<close> where the browser
  refuses the access with a SecurityError.
\<close>

record environment =
  self_content :: windowData
  self_parent :: "window option"
  now :: int
  localStorage :: "(string \<Rightarrow> string option) option"

text \<open>
  Modelled from the spec: \<open>utils.getWindowSelf\<close> and \<open>utils.getWindowTop\<close> of
  \<open>src/utils.js\<close> are not among the sources; the spec names them the current browsing
  context and the top-level browsing context.
\<close>

definition getWindowSelf :: "environment \<Rightarrow> window" where
  "getWindowSelf env = Window (Some (self_content env)) (self_parent env)"

fun topOf :: "window \<Rightarrow> window" where
  "topOf (Window c None) = Window c None"
| "topOf (Window c (Some p)) = topOf p"

definition getWindowTop :: "environment \<Rightarrow> window" where
  "getWindowTop env = topOf (getWindowSelf env)"

definition isSecureWindow :: "environment \<Rightarrow> bool" where
  "isSecureWindow env = (location_protocol (self_content env) = ''https:'')"

definition getTopWindowReferrer :: "environment \<Rightarrow> jsval" where
  "getTopWindowReferrer env =
     (case readWindow (getWindowTop env) of
        Inr d \<Rightarrow> document_referrer d
      | Inl e \<Rightarrow> referrer (self_content env))"

text \<open>
  The loop of \<open>getMostAccessibleTopWindow\<close>, from \<open>res\<close>: it climbs while \<open>res\<close> is not the
  top window and \<open>res.parent.location.href\<close> is readable and not empty; the \<open>catch\<close>
  around it ends it where the read throws.
\<close>

fun climb :: "window \<Rightarrow> window" where
  "climb (Window c None) = Window c None"
| "climb (Window c (Some p)) =
     (case readWindow p of
        Inl e \<Rightarrow> Window c (Some p)
      | Inr d \<Rightarrow> if length (location_href d) \<noteq> 0 then climb p else Window c (Some p))"

definition getMostAccessibleTopWindow :: "environment \<Rightarrow> window" where
  "getMostAccessibleTopWindow env = climb (getWindowSelf env)"

definition isMainPageAccessible :: "environment \<Rightarrow> bool" where
  "isMainPageAccessible env = (parent (getMostAccessibleTopWindow env) = None)"

text \<open>
  \<open>visibleInWindow(el, win)\<close>. \<open>el\<close> is \<open>None\<close> for \<open>null\<close>, on which
  \<open>getBoundingClientRect\<close> throws. \<open>&&\<close> evaluates its right side only when the left one
  holds: \<open>win.innerHeight\<close> is read only when the lower edge of the element is not above
  the viewport, and \<open>win.frameElement\<close> only when the element is in view.
\<close>

fun visibleInWindow :: "element option \<Rightarrow> window \<Rightarrow> error + bool" where
  "visibleInWindow None win = Inl TypeError"
| "visibleInWindow (Some el) (Window c par) =
     (case (if top' (getBoundingClientRect el) + height (getBoundingClientRect el) \<ge> 0
            then (case c of None \<Rightarrow> Inl SecurityError
                  | Some d \<Rightarrow> Inr (top' (getBoundingClientRect el) \<le> innerHeight d))
            else Inr False) of
        Inl e \<Rightarrow> Inl e
      | Inr inView \<Rightarrow>
          (case par of
             None \<Rightarrow> Inr inView
           | Some p \<Rightarrow>
               if inView
               then (case c of None \<Rightarrow> Inl SecurityError
                     | Some d \<Rightarrow> visibleInWindow (frameElement d) p)
               else Inr False))"

definition resolveElement :: "environment \<Rightarrow> string \<Rightarrow> element option" where
  "resolveElement env elId = document_getElementById (self_content env) elId"

text \<open>
  \<open>elementInView\<close>: the \<open>try\<close> returns the boolean, and any exception ends in the
  \<open>return undefined\<close> after the empty \<open>catch\<close>.
\<close>

definition elementInView :: "environment \<Rightarrow> string \<Rightarrow> jsval" where
  "elementInView env elementId =
     (case visibleInWindow (resolveElement env elementId) (getWindowSelf env) of
        Inr b \<Rightarrow> Bool b
      | Inl e \<Rightarrow> Undefined)"

section \<open>Building the request\<close>

text \<open>
  \<open>utils.buildUrl\<close> and \<open>utils.deepAccess\<close> of \<open>src/utils.js\<close> are not among the sources:
  they are parameters of the model, and what is proved holds for every implementation of
  them. \<open>utils.buildUrl\<close> gets the object \<open>{protocol, hostname, port, pathname}\<close>.
\<close>

record urlParts =
  protocol :: string
  hostname :: jsval
  port :: jsval
  pathname :: jsval

record 'u utils =
  utils_buildUrl :: "urlParts \<Rightarrow> 'u"
  utils_deepAccess :: "bidRequest \<Rightarrow> string \<Rightarrow> error + jsval"

text \<open>
  Modelled from the spec: \<open>utils.isEmpty\<close> of \<open>src/utils.js\<close> is not among the sources;
  the spec says that the identity map is "included only if non-empty".
\<close>

fun isEmpty :: "jsval \<Rightarrow> bool" where
  "isEmpty (Obj m) = (dom m = {})"
| "isEmpty (Arr xs) = (xs = [])"
| "isEmpty (Str s) = (s = [])"
| "isEmpty v = True"

text \<open>A default of a destructuring pattern applies where the property is \<open>undefined\<close>.\<close>

definition orDefault :: "jsval \<Rightarrow> jsval \<Rightarrow> jsval" where
  "orDefault v d = (if v = Undefined then d else v)"

text \<open>\<open>a || b\<close> on values.\<close>

definition orElse :: "jsval \<Rightarrow> jsval \<Rightarrow> jsval" where
  "orElse a b = (if truthy a then a else b)"

text \<open>
  The adapter's own \<open>buildUrl\<close>; destructuring its argument throws a TypeError on
  \<open>undefined\<close> and \<open>null\<close>.
\<close>

definition buildUrl :: "'u utils \<Rightarrow> jsval \<Rightarrow> error + 'u" where
  "buildUrl u ps =
     andThen (getProp ps ''host'') (\<lambda>host.
     andThen (getProp ps ''port'') (\<lambda>port0.
     andThen (getProp ps ''securePort'') (\<lambda>securePort.
     andThen (getProp ps ''path'') (\<lambda>path.
       let hostname = orDefault host (Str DEFAULT_HOST);
           port1 = orDefault port0 (Str DEFAULT_PORT);
           pathname = orDefault path (Str DEFAULT_PATH);
           port2 = (if truthy securePort then securePort else port1)
       in Inr (utils_buildUrl u
            \<lparr>protocol = ''https'', hostname = hostname, port = port2, pathname = pathname\<rparr>)))))"

text \<open>
  The \<open>find\<close> polyfill at the end of the file: the first element on which the predicate
  returns a truthy value, \<open>None\<close> for \<open>undefined\<close> when there is none; an exception of the
  predicate ends the search.
\<close>

fun find' :: "'a list \<Rightarrow> ('a \<Rightarrow> error + jsval) \<Rightarrow> error + 'a option" where
  "find' [] predicate = Inr None"
| "find' (kValue # rest) predicate =
     (case predicate kValue of
        Inl e \<Rightarrow> Inl e
      | Inr v \<Rightarrow> if truthy v then Inr (Some kValue) else find' rest predicate)"

text \<open>
  Numbers of milliseconds. The timeout, the start of the auction and the clock are
  integers as the host sets them; a field that is missing (\<open>undefined\<close>) is \<open>None\<close>.
  JavaScript subtracts them as doubles: the exact difference, rounded to the nearest
  double, to the even one of two that are as near. \<open>toDouble\<close> is that rounding on
  integers (of a magnitude below \<open>2^1024\<close>, where a double becomes infinite): every integer
  up to \<open>2^53\<close> is a double, a larger one keeps its 53 leading bits. A subtraction with
  \<open>undefined\<close> gives \<open>NaN\<close>, which is \<open>None\<close>. \<open>isSafeInteger\<close> is \<open>Number.isSafeInteger\<close>.
\<close>

fun bitLength :: "nat \<Rightarrow> nat" where
  "bitLength n = (if n = 0 then 0 else Suc (bitLength (n div 2)))"

definition toDouble :: "int \<Rightarrow> int" where
  "toDouble x =
     (let n = nat \<bar>x\<bar> in
      if n \<le> 2 ^ 53 then x
      else
        (let e = bitLength n - 53;
             q = n div 2 ^ e;
             r = n mod 2 ^ e;
             h = 2 ^ (e - 1);
             q' = (if r > h \<or> (r = h \<and> odd q) then q + 1 else q)
         in sgn x * int (q' * 2 ^ e)))"

definition minus_number :: "int option \<Rightarrow> int option \<Rightarrow> int option" where
  "minus_number a b =
     (case a of
        None \<Rightarrow> None
      | Some x \<Rightarrow> (case b of None \<Rightarrow> None | Some y \<Rightarrow> Some (toDouble (x - y))))"

definition isSafeInteger :: "int \<Rightarrow> bool" where
  "isSafeInteger x = (\<bar>x\<bar> \<le> 2 ^ 53 - 1)"

text \<open>The batch. The consent object is \<open>None\<close> where \<open>gdprConsent\<close> is \<open>undefined\<close>.\<close>

record gdprConsent =
  consentString :: jsval
  gdprApplies :: jsval

record bidderRequest =
  auctionId :: jsval
  bids :: "bidRequest list"
  timeout :: "int option"
  auctionStart :: "int option"
  gdprConsent :: "gdprConsent option"

text \<open>
  The payload; a field that the code sets only under a condition is \<open>None\<close> where it is
  not set, and the timeout is \<open>None\<close> where it is \<open>NaN\<close>. The fields carry the prefix
  \<open>p_\<close> (\<open>id\<close>, \<open>bids\<close> and \<open>timeout\<close> are taken).
\<close>

record bidEntry =
  bid :: jsval
  sid :: jsval
  siz :: jsval
  viz :: jsval

record gdpr =
  consent :: jsval
  applies :: jsval

record payload =
  p_id :: jsval
  p_bids :: "bidEntry list"
  p_ref :: jsval
  p_ssl :: bool
  p_mpa :: bool
  p_timeout :: "int option"
  p_ssat :: jsval
  p_yl2 :: jsval
  p_ab :: jsval
  p_user :: "jsval option"
  p_gdpr :: "gdpr option"

record 'u serverRequest =
  method' :: string
  url :: 'u
  data :: payload

text \<open>\<open>bidSizes\<close>, local to \<open>buildRequests\<close>.\<close>

definition bidSizes :: "'u utils \<Rightarrow> bidRequest \<Rightarrow> error + jsval" where
  "bidSizes u b =
     andThen (utils_deepAccess u b ''mediaTypes.banner.sizes'')
       (\<lambda>v. Inr (orElse (orElse v (sizes b)) (Arr [])))"

text \<open>The \<open>forEach\<close> over the validated requests that fills \<open>payload.bids\<close>.\<close>

fun pushBids :: "'u utils \<Rightarrow> environment \<Rightarrow> bidRequest list \<Rightarrow> error + bidEntry list" where
  "pushBids u env [] = Inr []"
| "pushBids u env (b # rest) =
     andThen (getProp (params b) ''sid'') (\<lambda>s.
     andThen (bidSizes u b) (\<lambda>z.
     andThen (pushBids u env rest) (\<lambda>entries.
       Inr (\<lparr>bid = bidId b, sid = s, siz = z, viz = elementInView env (adUnitCode b)\<rparr>
            # entries))))"

definition buildRequests ::
  "'u utils \<Rightarrow> environment \<Rightarrow> bidRequest list \<Rightarrow> bidderRequest \<Rightarrow> error + 'u serverRequest" where
  "buildRequests u env validBidRequests bidderRequest =
     (let anyBid = (case bids bidderRequest of [] \<Rightarrow> None | b # bs \<Rightarrow> Some b) in
      andThen (find' validBidRequests (\<lambda>bidRequest. getProp (params bidRequest) ''ssat''))
        (\<lambda>bidRequestWithSsat.
      andThen (find' validBidRequests (\<lambda>bidRequest. getProp (params bidRequest) ''yl2''))
        (\<lambda>bidRequestWithYl2.
      andThen (case bidRequestWithSsat of
                 Some r \<Rightarrow> getProp (params r) ''ssat''
               | None \<Rightarrow> Inr (Num 2)) (\<lambda>ssat.
      andThen (case bidRequestWithYl2 of
                 Some r \<Rightarrow> getProp (params r) ''yl2''
               | None \<Rightarrow> (case localStorage env of
                             None \<Rightarrow> Inl SecurityError
                           | Some storage \<Rightarrow> Inr (Bool (storage ''sdgYieldtest'' = Some ''1''))))
        (\<lambda>yl2.
      let payload0 =
            \<lparr>p_id = auctionId bidderRequest,
             p_bids = [],
             p_ref = getTopWindowReferrer env,
             p_ssl = isSecureWindow env,
             p_mpa = isMainPageAccessible env,
             p_timeout = minus_number (timeout bidderRequest)
                         (minus_number (Some (now env)) (auctionStart bidderRequest)),
             p_ssat = ssat,
             p_yl2 = yl2,
             p_ab = yieldlove_ab (self_content env),
             p_user = None,
             p_gdpr = None\<rparr>
      in
      andThen (case anyBid of None \<Rightarrow> Inl TypeError | Some b \<Rightarrow> Inr (userId b)) (\<lambda>userIds.
      let payload1 = (if \<not> isEmpty userIds then payload0\<lparr>p_user := Some userIds\<rparr> else payload0);
          payload2 =
            (case gdprConsent bidderRequest of
               None \<Rightarrow> payload1
             | Some c \<Rightarrow>
                 if consentString c \<noteq> Null \<and> consentString c \<noteq> Undefined
                    \<and> gdprApplies c \<noteq> Null \<and> gdprApplies c \<noteq> Undefined
                 then payload1\<lparr>p_gdpr := Some \<lparr>consent = consentString c, applies = gdprApplies c\<rparr>\<rparr>
                 else payload1)
      in
      andThen (pushBids u env validBidRequests) (\<lambda>entries.
      andThen (case anyBid of None \<Rightarrow> Inl TypeError | Some b \<Rightarrow> buildUrl u (params b)) (\<lambda>theUrl.
        Inr \<lparr>method' = ''POST'', url = theUrl, data = payload2\<lparr>p_bids := entries\<rparr>\<rparr>))))))))"

section \<open>Interpreting the response\<close>

record serverResponse =
  body :: jsval

text \<open>
  \<open>Object.assign(target, source)\<close> writes the own enumerable properties of the source
  over the target. An object has its properties, an array and a string have their indices
  (written in decimal), any other value has none.
\<close>

fun digits :: "nat \<Rightarrow> string" where
  "digits n =
     (if n < 10 then [''0123456789'' ! n]
      else digits (n div 10) @ [''0123456789'' ! (n mod 10)])"

fun ownProperties :: "jsval \<Rightarrow> string \<Rightarrow> jsval option" where
  "ownProperties (Obj m) = m"
| "ownProperties (Arr xs) = map_of (zip (map digits [0..<length xs]) xs)"
| "ownProperties (Str s) = map_of (zip (map digits [0..<length s]) (map (\<lambda>c. Str [c]) s))"
| "ownProperties v = Map.empty"

definition Object_assign :: "(string \<Rightarrow> jsval option) \<Rightarrow> jsval \<Rightarrow> string \<Rightarrow> jsval option" where
  "Object_assign target source = target ++ ownProperties source"

text \<open>
  The callback of \<open>serverResponse.body.bids.forEach\<close>: the bid it pushes for one entry
  of the response. Reading a property of an entry that is \<open>null\<close> throws.
\<close>

definition interpretBid :: "jsval \<Rightarrow> error + jsval" where
  "interpretBid bidResponse =
     andThen (getProp bidResponse ''cpm'') (\<lambda>cpm0.
     andThen (getProp bidResponse ''bidId'') (\<lambda>bidId0.
     andThen (getProp bidResponse ''width'') (\<lambda>width0.
     andThen (getProp bidResponse ''height'') (\<lambda>height0.
     andThen (getProp bidResponse ''ad'') (\<lambda>ad0.
     andThen (getProp bidResponse ''bidPriceOptimisation'') (\<lambda>bidPriceOptimisation.
       let cpm = orElse cpm0 (Num 0);
           theBid = [''requestId'' \<mapsto> bidId0,
                     ''cpm'' \<mapsto> cpm,
                     ''width'' \<mapsto> orElse width0 (Num 0),
                     ''height'' \<mapsto> orElse height0 (Num 0),
                     ''ad'' \<mapsto> ad0,
                     ''ttl'' \<mapsto> Num 300,
                     ''currency'' \<mapsto> Str ''EUR'',
                     ''netRevenue'' \<mapsto> Bool True,
                     ''creativeId'' \<mapsto> Str []]
       in if truthy bidPriceOptimisation
          then Inr (Obj (Object_assign theBid bidPriceOptimisation))
          else Inr (Obj theBid)))))))"

fun forEachBid :: "jsval list \<Rightarrow> error + jsval list" where
  "forEachBid [] = Inr []"
| "forEachBid (bidResponse # rest) =
     andThen (interpretBid bidResponse) (\<lambda>b.
     andThen (forEachBid rest) (\<lambda>bs. Inr (b # bs)))"

text \<open>
  \<open>interpretResponse\<close> returns the bids, or throws; beside the result stands the list
  of the urls handed to \<open>ajax\<close>, the tracking call. \<open>forEach\<close> is a method of arrays only:
  on \<open>undefined\<close>, and on any \<open>bids\<close> that is not an array, the call throws a TypeError.
  The body is truthy where its properties are read, so these reads do not throw.
\<close>

definition interpretResponse :: "serverResponse \<Rightarrow> (error + jsval list) \<times> jsval list" where
  "interpretResponse serverResponse =
     (if truthy (body serverResponse) \<and> typeof (body serverResponse) = ''object''
      then
        (let tep = readProp (body serverResponse) ''tep'';
             ajaxCalls = (if truthy tep then [tep] else [])
         in (case readProp (body serverResponse) ''bids'' of
               Arr entries \<Rightarrow> forEachBid entries
             | other \<Rightarrow> Inl TypeError,
             ajaxCalls))
      else (Inr [], []))"

section \<open>The normalized bid, as the specification words it\<close>

text \<open>
  The price-optimisation value of an entry keeps a key where it does not write it: it is
  absent (not truthy), or has no property of that name. The bid \<open>b\<close> is a normalized bid
  of the entry \<open>e\<close>: the kept standard fields are as the specification lists them, with
  \<open>cpm\<close>, \<open>width\<close> and \<open>height\<close> 0 where the entry has none and the entry's own where that
  is truthy; and every property of a price-optimisation object is in the bid.
\<close>

definition keeps :: "jsval \<Rightarrow> string \<Rightarrow> bool" where
  "keeps opt k = (\<not> truthy opt \<or> ownProperties opt k = None)"

definition normalizedBid :: "jsval \<Rightarrow> (string \<Rightarrow> jsval option) \<Rightarrow> bool" where
  "normalizedBid e b =
     ((\<forall>k\<in>{''cpm'', ''width'', ''height''}.
          keeps (readProp e ''bidPriceOptimisation'') k \<longrightarrow>
            (readProp e k = Undefined \<longrightarrow> b k = Some (Num 0)) \<and>
            (truthy (readProp e k) \<longrightarrow> b k = Some (readProp e k)))
      \<and> (keeps (readProp e ''bidPriceOptimisation'') ''requestId''
           \<longrightarrow> b ''requestId'' = Some (readProp e ''bidId''))
      \<and> (keeps (readProp e ''bidPriceOptimisation'') ''ad'' \<longrightarrow> b ''ad'' = Some (readProp e ''ad''))
      \<and> (keeps (readProp e ''bidPriceOptimisation'') ''ttl'' \<longrightarrow> b ''ttl'' = Some (Num 300))
      \<and> (keeps (readProp e ''bidPriceOptimisation'') ''currency''
           \<longrightarrow> b ''currency'' = Some (Str ''EUR''))
      \<and> (keeps (readProp e ''bidPriceOptimisation'') ''netRevenue''
           \<longrightarrow> b ''netRevenue'' = Some (Bool True))
      \<and> (keeps (readProp e ''bidPriceOptimisation'') ''creativeId''
           \<longrightarrow> b ''creativeId'' = Some (Str []))
      \<and> (\<forall>opt k v. readProp e ''bidPriceOptimisation'' = Obj opt \<and> opt k = Some v
           \<longrightarrow> b k = Some v))"

section \<open>Visibility, as the specification words it\<close>

text \<open>
  The rectangle of an element overlaps the vertical viewport of a window; and the
  element is in view up the whole chain: it overlaps the viewport of its window, which is
  readable, and where that window is a frame, its frame element is in view up the chain
  of the parent.
\<close>

definition overlaps :: "element \<Rightarrow> windowData \<Rightarrow> bool" where
  "overlaps el d =
     (top' (getBoundingClientRect el) + height (getBoundingClientRect el) \<ge> 0
      \<and> top' (getBoundingClientRect el) \<le> innerHeight d)"

fun chainInView :: "element \<Rightarrow> window \<Rightarrow> bool" where
  "chainInView el (Window c par) =
     (case c of
        None \<Rightarrow> False
      | Some d \<Rightarrow>
          overlaps el d \<and>
          (case par of
             None \<Rightarrow> True
           | Some p \<Rightarrow> (case frameElement d of None \<Rightarrow> False | Some fe \<Rightarrow> chainInView fe p)))"

text \<open>
  An access of the walk throws: the walk reads the height of a window that is not
  readable, or, every level so far being in view, comes to a frame element that is
  \<open>null\<close>, or throws further up. A level that is out of view ends the walk before
  anything above it is read.
\<close>

fun accessThrows :: "element \<Rightarrow> window \<Rightarrow> bool" where
  "accessThrows el (Window c par) =
     (top' (getBoundingClientRect el) + height (getBoundingClientRect el) \<ge> 0 \<and>
      (case c of
         None \<Rightarrow> True
       | Some d \<Rightarrow>
           top' (getBoundingClientRect el) \<le> innerHeight d \<and>
           (case par of
              None \<Rightarrow> False
            | Some p \<Rightarrow> (case frameElement d of None \<Rightarrow> True | Some fe \<Rightarrow> accessThrows fe p))))"

section \<open>The samples of the adapter's tests\<close>

text \<open>
  The fixtures of the test file of the adapter: \<open>createElement\<close>, the windows of
  \<open>setupNestedWindows\<close> (a top window, a frame in it, and the current window in that
  frame, each of them readable), and \<open>buildBidderRequest\<close>. The clock and the storage
  are set by each test.
\<close>

definition createElement :: "real \<Rightarrow> element" where
  "createElement offsetTop = \<lparr>getBoundingClientRect = \<lparr>top' = offsetTop, height = 1\<rparr>\<rparr>"

definition placementElements :: "string \<Rightarrow> element option" where
  "placementElements = [''div-1'' \<mapsto> createElement 17, ''div-2'' \<mapsto> createElement 54]"

definition topWin :: window where
  "topWin = Window (Some \<lparr>innerHeight = 800, location_protocol = ''http:'',
       location_href = ''http://www.abc.org/'',
       document_referrer = Str ''http://www.google.com/?query=monkey'',
       document_getElementById = Map.empty, referrer = Undefined,
       frameElement = None, yieldlove_ab = Undefined\<rparr>) None"

definition midWin :: window where
  "midWin = Window (Some \<lparr>innerHeight = 400, location_protocol = ''http:'',
       location_href = ''http://www.abc.org/'', document_referrer = Undefined,
       document_getElementById = Map.empty, referrer = Undefined,
       frameElement = Some (createElement 0), yieldlove_ab = Undefined\<rparr>) (Some topWin)"

definition setupNestedWindows :: "int \<Rightarrow> (string \<Rightarrow> string option) \<Rightarrow> environment" where
  "setupNestedWindows clock storage =
     \<lparr>self_content = \<lparr>innerHeight = 200, location_protocol = ''http:'',
         location_href = ''http://www.xyz.com/'', document_referrer = Undefined,
         document_getElementById = placementElements, referrer = Undefined,
         frameElement = Some (createElement 304), yieldlove_ab = Undefined\<rparr>,
      self_parent = Some midWin,
      now = clock,
      localStorage = Some storage\<rparr>"

text \<open>
  A current window that is a frame of a page of another origin: its \<open>frameElement\<close> is
  \<open>null\<close>, its parent cannot be read, and neither can the storage. One placement is in
  view, the other one far below the viewport.
\<close>

definition otherOrigin :: window where
  "otherOrigin = Window None None"

definition setupFramedByOtherOrigin :: environment where
  "setupFramedByOtherOrigin =
     \<lparr>self_content = \<lparr>innerHeight = 200, location_protocol = ''https:'',
         location_href = ''https://www.xyz.com/'', document_referrer = Undefined,
         document_getElementById = [''div-1'' \<mapsto> createElement 17, ''div-2'' \<mapsto> createElement 540],
         referrer = Undefined, frameElement = None, yieldlove_ab = Undefined\<rparr>,
      self_parent = Some otherOrigin,
      now = 13500,
      localStorage = None\<rparr>"

definition userIds :: jsval where
  "userIds = Obj [''criteoId'' \<mapsto> Str ''criteo-user-id'',
       ''lipb'' \<mapsto> Obj [''lipbid'' \<mapsto> Str ''T7JiRRvsRAmh88'',
                       ''segments'' \<mapsto> Arr [Str ''999'']]]"

definition bannerOf :: "jsval \<Rightarrow> jsval" where
  "bannerOf theSizes = Obj [''banner'' \<mapsto> Obj [''sizes'' \<mapsto> theSizes]]"

definition bid1 :: "jsval \<Rightarrow> bidRequest" where
  "bid1 theParams =
     \<lparr>bidId = Str ''bid1'', adUnitCode = ''div-1'',
      mediaTypes = bannerOf (Arr [Arr [Num 300, Num 600], Arr [Num 160, Num 60]]),
      mediaType = Undefined, sizes = Undefined, params = theParams, userId = userIds\<rparr>"

definition bid2 :: "jsval \<Rightarrow> bidRequest" where
  "bid2 theParams =
     \<lparr>bidId = Str ''bid2'', adUnitCode = ''div-2'',
      mediaTypes = bannerOf (Arr [Arr [Num 728, Num 90]]),
      mediaType = Undefined, sizes = Undefined, params = theParams, userId = userIds\<rparr>"

definition buildBidderRequest :: "bidRequest list \<Rightarrow> gdprConsent option \<Rightarrow> bidderRequest" where
  "buildBidderRequest theBids theConsent =
     \<lparr>auctionId = Str ''auction-1'', bids = theBids, timeout = Some 5000,
      auctionStart = Some 10000,
      gdprConsent = theConsent\<rparr>"

text \<open>
  Modelled from the spec: \<open>utils.buildUrl\<close> and \<open>utils.deepAccess\<close> of \<open>src/utils.js\<close>
  are not among the sources. For the samples, the url is written as the spec writes it,
  \<open>https://<host>:<port><path>\<close> with no port segment where the port is empty; how a part
  that is not a string is written the spec does not say (\<open>None\<close>). The sizes are the
  "structured banner-sizes field".
\<close>

definition sampleBuildUrl :: "urlParts \<Rightarrow> string option" where
  "sampleBuildUrl parts =
     (case (hostname parts, port parts, pathname parts) of
        (Str h, Str p, Str a) \<Rightarrow>
          Some (protocol parts @ ''://'' @ h @ (if p = [] then [] else '':'' @ p) @ a)
      | other \<Rightarrow> None)"

definition sampleDeepAccess :: "bidRequest \<Rightarrow> string \<Rightarrow> error + jsval" where
  "sampleDeepAccess b path =
     (if path = ''mediaTypes.banner.sizes''
      then Inr (readProp (readProp (mediaTypes b) ''banner'') ''sizes'')
      else Inr Undefined)"

definition sampleUtils :: "string option utils" where
  "sampleUtils = \<lparr>utils_buildUrl = sampleBuildUrl, utils_deepAccess = sampleDeepAccess\<rparr>"

section \<open>Exceptions, property reads and \<open>find\<close>\<close>

lemma andThen_Inl [simp]: "andThen (Inl e) f = Inl e"
  by (simp add: andThen_def)

lemma andThen_Inr [simp]: "andThen (Inr x) f = f x"
  by (simp add: andThen_def)

lemma andThen_eq_Inr: "andThen m f = Inr y \<longleftrightarrow> (\<exists>x. m = Inr x \<and> f x = Inr y)"
  by (cases m) simp_all

lemma getProp_eq_Inr: "getProp v k = Inr x \<longleftrightarrow> v \<noteq> Undefined \<and> v \<noteq> Null \<and> x = readProp v k"
  by (auto simp: getProp_def)

lemma find'_Inr_Some:
  "find' xs p = Inr (Some r) \<Longrightarrow>
   \<exists>pre post. xs = pre @ r # post \<and> (\<forall>x\<in>set pre. \<exists>v. p x = Inr v \<and> \<not> truthy v)
      \<and> (\<exists>v. p r = Inr v \<and> truthy v)"
proof (induction xs)
  case Nil
  then show ?case by simp
next
  case (Cons a xs)
  show ?case
  proof (cases "p a")
    case (Inl e)
    with Cons.prems show ?thesis by simp
  next
    case (Inr v)
    show ?thesis
    proof (cases "truthy v")
      case True
      with Inr Cons.prems have "a = r" by simp
      with Inr True show ?thesis by (intro exI[of _ "[]"] exI[of _ xs]) simp
    next
      case False
      with Inr Cons.prems have "find' xs p = Inr (Some r)" by simp
      from Cons.IH[OF this] obtain pre post where
        "xs = pre @ r # post" "\<forall>x\<in>set pre. \<exists>v. p x = Inr v \<and> \<not> truthy v"
        "\<exists>v. p r = Inr v \<and> truthy v" by blast
      with Inr False show ?thesis
        by (intro exI[of _ "a # pre"] exI[of _ post]) simp
    qed
  qed
qed

lemma find'_Inr_None:
  "find' xs p = Inr None \<Longrightarrow> \<forall>x\<in>set xs. \<exists>v. p x = Inr v \<and> \<not> truthy v"
  by (induction xs) (auto split: sum.splits if_splits)

lemma find'_first:
  "(\<forall>x\<in>set pre. \<exists>v. p x = Inr v \<and> \<not> truthy v) \<Longrightarrow> p r = Inr v \<Longrightarrow> truthy v \<Longrightarrow>
   find' (pre @ r # post) p = Inr (Some r)"
  by (induction pre) auto

lemma find'_none:
  "(\<forall>x\<in>set xs. \<exists>v. p x = Inr v \<and> \<not> truthy v) \<Longrightarrow> find' xs p = Inr None"
  by (induction xs) auto

lemma find'_returns:
  "\<forall>x\<in>set xs. \<exists>v. p x = Inr v \<Longrightarrow> \<exists>w. find' xs p = Inr w"
  by (induction xs) auto

lemma find'_Some_mem: "find' xs p = Inr (Some r) \<Longrightarrow> r \<in> set xs"
  by (induction xs) (auto split: sum.splits if_splits)

section \<open>Validation\<close>

lemma isBanner_no_throw: "\<exists>v. isBanner r = Inr v"
  by (cases "mediaTypes r") (simp_all add: isBanner_def getProp_def)

lemma valid_params:
  assumes "fst (isBidRequestValid r) = Inr True"
  shows "params r \<noteq> Undefined \<and> params r \<noteq> Null \<and> isStr (readProp (params r) ''sid'')
    \<and> (readProp (params r) ''ssat'' = Undefined \<or> readProp (params r) ''ssat'' = Num 1
        \<or> readProp (params r) ''ssat'' = Num 2)"
proof -
  obtain v where v: "isBanner r = Inr v" using isBanner_no_throw by blast
  from assms v show ?thesis
    by (cases "params r")
      (auto simp: isBidRequestValid_def validators_def createValidator_def getProp_def
        split: if_splits)
qed

text \<open>
  C2. The claim: a bid request whose \<open>params\<close> is \<open>null\<close> is rejected with \<open>false\<close>.
  The check \<open>typeof bidReq.params === 'object'\<close> lets \<open>null\<close> through, and the next
  validator reads \<open>bidReq.params.sid\<close>: for a request that declares no media type and has
  \<open>params: null\<close>, the call ends with a TypeError, nothing logged, no boolean returned.
\<close>

theorem isBidRequestValid_null_params_throws:
  "isBidRequestValid \<lparr>bidId = Str ''bid1'', adUnitCode = ''div-1'', mediaTypes = Undefined,
      mediaType = Undefined, sizes = Undefined, params = Null, userId = Undefined\<rparr>
   = (Inl TypeError, [])"
  by (simp add: isBidRequestValid_def validators_def createValidator_def isBanner_def
      getProp_def)

text \<open>
  Around it: a \<open>params\<close> whose \<open>typeof\<close> is not \<open>"object"\<close> (\<open>undefined\<close>, a string, a number,
  a boolean) is rejected with \<open>false\<close>; \<open>null\<close> throws in every request that passes the
  banner rule.
\<close>

lemma isBidRequestValid_non_object_params:
  assumes "typeof (params r) \<noteq> ''object''"
  shows "fst (isBidRequestValid r) = Inr False"
proof -
  obtain v where v: "isBanner r = Inr v" using isBanner_no_throw by blast
  from assms v show ?thesis
    by (simp add: isBidRequestValid_def validators_def createValidator_def)
qed

lemma isBidRequestValid_null_params:
  assumes "params r = Null" and "isBanner r = Inr v" and "truthy v"
  shows "isBidRequestValid r = (Inl TypeError, [])"
  using assms
  by (simp add: isBidRequestValid_def validators_def createValidator_def getProp_def)

section \<open>When \<open>buildRequests\<close> returns, and what\<close>

lemma pushBids_params:
  "pushBids u env valid = Inr es \<Longrightarrow> \<forall>r\<in>set valid. params r \<noteq> Undefined \<and> params r \<noteq> Null"
  by (induction valid arbitrary: es) (auto simp: andThen_eq_Inr getProp_eq_Inr)

lemma buildRequests_Inr:
  assumes "buildRequests u env valid br = Inr req"
  shows "\<exists>b bs w y. bids br = b # bs
     \<and> find' valid (\<lambda>r. getProp (params r) ''ssat'') = Inr w
     \<and> find' valid (\<lambda>r. getProp (params r) ''yl2'') = Inr y
     \<and> p_ssat (data req) = (case w of Some r \<Rightarrow> readProp (params r) ''ssat'' | None \<Rightarrow> Num 2)
     \<and> (case y of Some r \<Rightarrow> p_yl2 (data req) = readProp (params r) ''yl2''
         | None \<Rightarrow> \<exists>st. localStorage env = Some st
                    \<and> p_yl2 (data req) = Bool (st ''sdgYieldtest'' = Some ''1''))
     \<and> p_timeout (data req) =
         minus_number (timeout br) (minus_number (Some (now env)) (auctionStart br))
     \<and> p_gdpr (data req) =
         (case gdprConsent br of None \<Rightarrow> None
          | Some c \<Rightarrow> if consentString c \<noteq> Null \<and> consentString c \<noteq> Undefined
                    \<and> gdprApplies c \<noteq> Null \<and> gdprApplies c \<noteq> Undefined
               then Some \<lparr>consent = consentString c, applies = gdprApplies c\<rparr> else None)
     \<and> buildUrl u (params b) = Inr (url req)
     \<and> pushBids u env valid = Inr (p_bids (data req))"
proof -
  from assms obtain w where w: "find' valid (\<lambda>r. getProp (params r) ''ssat'') = Inr w"
    unfolding buildRequests_def Let_def andThen_eq_Inr by blast
  from assms w obtain y where y: "find' valid (\<lambda>r. getProp (params r) ''yl2'') = Inr y"
    unfolding buildRequests_def Let_def by (simp add: andThen_eq_Inr) blast
  from assms w y obtain ssat where
    ssat: "(case w of Some r \<Rightarrow> getProp (params r) ''ssat'' | None \<Rightarrow> Inr (Num 2)) = Inr ssat"
    unfolding buildRequests_def Let_def by (simp add: andThen_eq_Inr) blast
  from assms w y ssat obtain yl2 where
    yl2: "(case y of Some r \<Rightarrow> getProp (params r) ''yl2''
          | None \<Rightarrow> (case localStorage env of None \<Rightarrow> Inl SecurityError
                     | Some storage \<Rightarrow> Inr (Bool (storage ''sdgYieldtest'' = Some ''1'')))) = Inr yl2"
    unfolding buildRequests_def Let_def by (simp add: andThen_eq_Inr) blast
  from assms w y ssat yl2 obtain b bs where b: "bids br = b # bs"
    unfolding buildRequests_def Let_def by (cases "bids br") simp_all
  from assms w y ssat yl2 b obtain entries where e: "pushBids u env valid = Inr entries"
    unfolding buildRequests_def Let_def by (simp add: andThen_eq_Inr) blast
  from assms w y ssat yl2 b e obtain theUrl where t: "buildUrl u (params b) = Inr theUrl"
    unfolding buildRequests_def Let_def by (simp add: andThen_eq_Inr) blast
  note facts = assms w y ssat yl2 b e t
  from facts have 1: "p_ssat (data req) = ssat"
    unfolding buildRequests_def Let_def by (auto split: option.splits if_splits)
  from facts have 2: "p_yl2 (data req) = yl2"
    unfolding buildRequests_def Let_def by (auto split: option.splits if_splits)
  from facts have 3: "p_timeout (data req) =
         minus_number (timeout br) (minus_number (Some (now env)) (auctionStart br))"
    unfolding buildRequests_def Let_def by (auto split: option.splits if_splits)
  from facts have 4: "p_gdpr (data req) =
         (case gdprConsent br of None \<Rightarrow> None
          | Some c \<Rightarrow> if consentString c \<noteq> Null \<and> consentString c \<noteq> Undefined
                    \<and> gdprApplies c \<noteq> Null \<and> gdprApplies c \<noteq> Undefined
               then Some \<lparr>consent = consentString c, applies = gdprApplies c\<rparr> else None)"
    unfolding buildRequests_def Let_def by (auto split: option.splits if_splits)
  from facts have 5: "url req = theUrl"
    unfolding buildRequests_def Let_def by (auto split: option.splits if_splits)
  from facts have 6: "p_bids (data req) = entries"
    unfolding buildRequests_def Let_def by (auto split: option.splits if_splits)
  from ssat 1 have 7:
    "p_ssat (data req) = (case w of Some r \<Rightarrow> readProp (params r) ''ssat'' | None \<Rightarrow> Num 2)"
    by (auto simp: getProp_eq_Inr split: option.splits)
  from yl2 2 have 8: "(case y of Some r \<Rightarrow> p_yl2 (data req) = readProp (params r) ''yl2''
         | None \<Rightarrow> \<exists>st. localStorage env = Some st
                    \<and> p_yl2 (data req) = Bool (st ''sdgYieldtest'' = Some ''1''))"
    by (auto simp: getProp_eq_Inr split: option.splits)
  from b w y 3 4 5 6 7 8 e t show ?thesis by simp
qed

lemma buildUrl_returns:
  "ps \<noteq> Undefined \<Longrightarrow> ps \<noteq> Null \<Longrightarrow> \<exists>x. buildUrl u ps = Inr x"
  by (simp add: buildUrl_def getProp_def Let_def)

lemma pushBids_returns:
  "\<forall>r\<in>set valid. params r \<noteq> Undefined \<and> params r \<noteq> Null \<Longrightarrow>
   \<forall>r\<in>set valid. \<exists>v. utils_deepAccess u r ''mediaTypes.banner.sizes'' = Inr v \<Longrightarrow>
   \<exists>es. pushBids u env valid = Inr es"
  by (induction valid) (auto simp: getProp_def bidSizes_def)

lemma find'_param_returns:
  assumes pv: "\<forall>r\<in>set valid. params r \<noteq> Undefined \<and> params r \<noteq> Null"
  shows "\<exists>w. find' valid (\<lambda>r. getProp (params r) k) = Inr w"
  by (rule find'_returns) (use pv in \<open>simp add: getProp_eq_Inr\<close>)

lemma ssat_returns:
  assumes pv: "\<forall>r\<in>set valid. params r \<noteq> Undefined \<and> params r \<noteq> Null"
    and w: "find' valid (\<lambda>r. getProp (params r) ''ssat'') = Inr w"
  shows "\<exists>v. (case w of Some r \<Rightarrow> getProp (params r) ''ssat'' | None \<Rightarrow> Inr (Num 2)) = Inr v"
proof (cases w)
  case None
  then show ?thesis by simp
next
  case (Some r)
  with w have "r \<in> set valid" by (auto dest: find'_Some_mem)
  with pv Some show ?thesis by (simp add: getProp_eq_Inr)
qed

lemma yl2_returns:
  assumes pv: "\<forall>r\<in>set valid. params r \<noteq> Undefined \<and> params r \<noteq> Null"
    and y: "find' valid (\<lambda>r. getProp (params r) ''yl2'') = Inr y"
    and st: "localStorage env \<noteq> None \<or> (\<exists>r\<in>set valid. truthy (readProp (params r) ''yl2''))"
  shows "\<exists>v. (case y of Some r \<Rightarrow> getProp (params r) ''yl2''
          | None \<Rightarrow> (case localStorage env of None \<Rightarrow> Inl SecurityError
                     | Some storage \<Rightarrow> Inr (Bool (storage ''sdgYieldtest'' = Some ''1'')))) = Inr v"
proof (cases y)
  case None
  with y have "\<forall>x\<in>set valid. \<exists>v. getProp (params x) ''yl2'' = Inr v \<and> \<not> truthy v"
    by (auto dest: find'_Inr_None)
  then have "\<forall>r\<in>set valid. \<not> truthy (readProp (params r) ''yl2'')"
    by (auto simp: getProp_eq_Inr)
  with st obtain storage where "localStorage env = Some storage" by auto
  with None show ?thesis by simp
next
  case (Some r)
  with y have "r \<in> set valid" by (auto dest: find'_Some_mem)
  with pv Some show ?thesis by (simp add: getProp_eq_Inr)
qed

lemma buildRequests_compose:
  assumes "bids br = b # bs"
    and "find' valid (\<lambda>r. getProp (params r) ''ssat'') = Inr w"
    and "find' valid (\<lambda>r. getProp (params r) ''yl2'') = Inr y"
    and "(case w of Some r \<Rightarrow> getProp (params r) ''ssat'' | None \<Rightarrow> Inr (Num 2)) = Inr v1"
    and "(case y of Some r \<Rightarrow> getProp (params r) ''yl2''
          | None \<Rightarrow> (case localStorage env of None \<Rightarrow> Inl SecurityError
                     | Some storage \<Rightarrow> Inr (Bool (storage ''sdgYieldtest'' = Some ''1'')))) = Inr v2"
    and "pushBids u env valid = Inr es"
    and "buildUrl u (params b) = Inr x"
  shows "\<exists>req. buildRequests u env valid br = Inr req"
  unfolding buildRequests_def Let_def
  by (simp only: assms andThen_Inr list.case option.case) blast

lemma buildRequests_returns:
  assumes b: "bids br = b # bs" and pb: "params b \<noteq> Undefined" "params b \<noteq> Null"
    and pv: "\<forall>r\<in>set valid. params r \<noteq> Undefined \<and> params r \<noteq> Null"
    and da: "\<forall>r\<in>set valid. \<exists>v. utils_deepAccess u r ''mediaTypes.banner.sizes'' = Inr v"
    and st: "localStorage env \<noteq> None \<or> (\<exists>r\<in>set valid. truthy (readProp (params r) ''yl2''))"
  shows "\<exists>req. buildRequests u env valid br = Inr req"
proof -
  from find'_param_returns[OF pv] obtain w where
    w: "find' valid (\<lambda>r. getProp (params r) ''ssat'') = Inr w" ..
  from find'_param_returns[OF pv] obtain y where
    y: "find' valid (\<lambda>r. getProp (params r) ''yl2'') = Inr y" ..
  from ssat_returns[OF pv w] obtain v1 where
    v1: "(case w of Some r \<Rightarrow> getProp (params r) ''ssat'' | None \<Rightarrow> Inr (Num 2)) = Inr v1"
    ..
  from yl2_returns[OF pv y st] obtain v2 where
    v2: "(case y of Some r \<Rightarrow> getProp (params r) ''yl2''
          | None \<Rightarrow> (case localStorage env of None \<Rightarrow> Inl SecurityError
                     | Some storage \<Rightarrow> Inr (Bool (storage ''sdgYieldtest'' = Some ''1'')))) = Inr v2"
    ..
  from pushBids_returns[OF pv da] obtain es where es: "pushBids u env valid = Inr es" ..
  from buildUrl_returns[OF pb] obtain x where x: "buildUrl u (params b) = Inr x" ..
  from b w y v1 v2 es x show ?thesis by (rule buildRequests_compose)
qed

lemma pushBids_deepAccess:
  "pushBids u env valid = Inr es \<Longrightarrow>
   \<forall>r\<in>set valid. \<exists>v. utils_deepAccess u r ''mediaTypes.banner.sizes'' = Inr v"
  by (induction valid arbitrary: es) (auto simp: andThen_eq_Inr bidSizes_def)

lemma buildUrl_params: "buildUrl u ps = Inr x \<Longrightarrow> ps \<noteq> Undefined \<and> ps \<noteq> Null"
  by (auto simp: buildUrl_def andThen_eq_Inr getProp_eq_Inr)

text \<open>
  \<open>buildRequests\<close> returns a request exactly when the batch has a first bid whose
  \<open>params\<close> can be destructured, every validated request has \<open>params\<close> whose properties can
  be read, \<open>utils.deepAccess\<close> returns on each of them, and the storage can be read or some
  request has a truthy \<open>yl2\<close>.
\<close>

lemma buildRequests_returns_iff:
  "(\<exists>req. buildRequests u env valid br = Inr req) \<longleftrightarrow>
     (\<exists>b bs. bids br = b # bs \<and> params b \<noteq> Undefined \<and> params b \<noteq> Null)
     \<and> (\<forall>r\<in>set valid. params r \<noteq> Undefined \<and> params r \<noteq> Null)
     \<and> (\<forall>r\<in>set valid. \<exists>v. utils_deepAccess u r ''mediaTypes.banner.sizes'' = Inr v)
     \<and> (localStorage env \<noteq> None \<or> (\<exists>r\<in>set valid. truthy (readProp (params r) ''yl2'')))"
  (is "?L \<longleftrightarrow> ?R")
proof
  assume ?L
  then obtain req where run: "buildRequests u env valid br = Inr req" ..
  from buildRequests_Inr[OF run] obtain b bs y where
    b: "bids br = b # bs" and y: "find' valid (\<lambda>r. getProp (params r) ''yl2'') = Inr y"
    and res: "case y of Some r \<Rightarrow> p_yl2 (data req) = readProp (params r) ''yl2''
         | None \<Rightarrow> \<exists>st. localStorage env = Some st
                    \<and> p_yl2 (data req) = Bool (st ''sdgYieldtest'' = Some ''1'')"
    and t: "buildUrl u (params b) = Inr (url req)"
    and pb: "pushBids u env valid = Inr (p_bids (data req))" by blast
  have st: "localStorage env \<noteq> None \<or> (\<exists>r\<in>set valid. truthy (readProp (params r) ''yl2''))"
  proof (cases y)
    case None
    with res show ?thesis by auto
  next
    case (Some r)
    with y have "r \<in> set valid" by (auto dest: find'_Some_mem)
    moreover from y Some have "truthy (readProp (params r) ''yl2'')"
      by (auto dest!: find'_Inr_Some simp: getProp_eq_Inr)
    ultimately show ?thesis by blast
  qed
  from b buildUrl_params[OF t] pushBids_params[OF pb] pushBids_deepAccess[OF pb] st
  show ?R by blast
next
  assume ?R
  then show ?L using buildRequests_returns[of br _ _ valid u env] by blast
qed

text \<open>
  The model on the sample of the test "should have expected JSON structure": the two
  bids of \<open>buildBidderRequest\<close> in the nested windows, the clock at 13500.
\<close>

lemmas sample_defs = createElement_def placementElements_def topWin_def midWin_def
  setupNestedWindows_def userIds_def bannerOf_def bid1_def bid2_def buildBidderRequest_def
  sampleBuildUrl_def sampleDeepAccess_def sampleUtils_def

lemmas run_defs = buildRequests_def buildUrl_def bidSizes_def elementInView_def
  resolveElement_def getWindowSelf_def getWindowTop_def getTopWindowReferrer_def
  isSecureWindow_def isMainPageAccessible_def getMostAccessibleTopWindow_def readWindow_def
  getProp_def orDefault_def orElse_def DEFAULT_HOST_def DEFAULT_PATH_def DEFAULT_PORT_def
  minus_number_def toDouble_def

lemma buildRequests_expected_payload:
  "buildRequests sampleUtils (setupNestedWindows 13500 Map.empty)
     [bid1 (Obj [''sid'' \<mapsto> Str ''NDA='']), bid2 (Obj [''sid'' \<mapsto> Str ''ODA=''])]
     (buildBidderRequest
        [bid1 (Obj [''sid'' \<mapsto> Str ''NDA='']), bid2 (Obj [''sid'' \<mapsto> Str ''ODA=''])] None)
   = Inr \<lparr>method' = ''POST'', url = Some ''https://hb.adscale.de/dsh'',
       data = \<lparr>p_id = Str ''auction-1'',
          p_bids = [\<lparr>bid = Str ''bid1'', sid = Str ''NDA='',
                      siz = Arr [Arr [Num 300, Num 600], Arr [Num 160, Num 60]], viz = Bool True\<rparr>,
                    \<lparr>bid = Str ''bid2'', sid = Str ''ODA='',
                      siz = Arr [Arr [Num 728, Num 90]], viz = Bool True\<rparr>],
          p_ref = Str ''http://www.google.com/?query=monkey'',
          p_ssl = False, p_mpa = True, p_timeout = Some 1500, p_ssat = Num 2, p_yl2 = Bool False,
          p_ab = Undefined, p_user = Some userIds, p_gdpr = None\<rparr>\<rparr>"
  by (simp add: sample_defs run_defs Let_def)

lemma toDouble_safe:
  assumes "isSafeInteger x"
  shows "toDouble x = x"
proof -
  from assms have "\<bar>x\<bar> \<le> 2 ^ 53" by (simp add: isSafeInteger_def)
  then have "nat \<bar>x\<bar> \<le> 2 ^ 53" by (simp add: nat_le_iff)
  then show ?thesis by (simp add: toDouble_def Let_def)
qed

text \<open>
  Beyond \<open>2^53\<close> the subtraction rounds: \<open>2^53 - (-1)\<close> is \<open>2^53\<close> again, the even one of its
  two neighbours.
\<close>

lemma toDouble_rounds: "minus_number (Some 9007199254740992) (Some (- 1)) = Some 9007199254740992"
  by (simp add: minus_number_def toDouble_def Let_def)

text \<open>Where the timeout or the start of the auction is missing, the result is \<open>NaN\<close>.\<close>

lemma timeout_missing:
  assumes "buildRequests u env validBidRequests bidderRequest = Inr req"
    and "timeout bidderRequest = None \<or> auctionStart bidderRequest = None"
  shows "p_timeout (data req) = None"
proof -
  from buildRequests_Inr[OF assms(1)] have "p_timeout (data req) =
      minus_number (timeout bidderRequest)
        (minus_number (Some (now env)) (auctionStart bidderRequest))" by blast
  with assms(2) show ?thesis by (auto simp: minus_number_def split: option.splits)
qed

lemma ssat_when_returned:
  assumes "buildRequests u env validBidRequests bidderRequest = Inr req"
    and "\<forall>r\<in>set validBidRequests. fst (isBidRequestValid r) = Inr True"
  shows "(\<forall>pre r post. validBidRequests = pre @ r # post
            \<and> (\<forall>x\<in>set pre. readProp (params x) ''ssat'' = Undefined)
            \<and> readProp (params r) ''ssat'' \<noteq> Undefined
          \<longrightarrow> p_ssat (data req) = readProp (params r) ''ssat'')
       \<and> ((\<forall>x\<in>set validBidRequests. readProp (params x) ''ssat'' = Undefined)
          \<longrightarrow> p_ssat (data req) = Num 2)"
proof -
  from buildRequests_Inr[OF assms(1)] obtain w where
    w: "find' validBidRequests (\<lambda>r. getProp (params r) ''ssat'') = Inr w"
    and res: "p_ssat (data req) =
       (case w of Some r \<Rightarrow> readProp (params r) ''ssat'' | None \<Rightarrow> Num 2)" by blast
  from assms(2) valid_params have
    ps: "\<forall>r\<in>set validBidRequests. getProp (params r) ''ssat'' = Inr (readProp (params r) ''ssat'')"
    by (simp add: getProp_eq_Inr)
  from assms(2) valid_params have
    tr: "\<forall>r\<in>set validBidRequests.
           truthy (readProp (params r) ''ssat'') = (readProp (params r) ''ssat'' \<noteq> Undefined)"
    by fastforce
  have first: "p_ssat (data req) = readProp (params r) ''ssat''"
    if "validBidRequests = pre @ r # post"
      "\<forall>x\<in>set pre. readProp (params x) ''ssat'' = Undefined"
      "readProp (params r) ''ssat'' \<noteq> Undefined" for pre r post
  proof -
    from that ps tr have "find' (pre @ r # post) (\<lambda>r. getProp (params r) ''ssat'') = Inr (Some r)"
      by (intro find'_first[where v = "readProp (params r) ''ssat''"]) auto
    with w that(1) have "w = Some r" by simp
    with res show ?thesis by simp
  qed
  have none: "p_ssat (data req) = Num 2"
    if "\<forall>x\<in>set validBidRequests. readProp (params x) ''ssat'' = Undefined"
  proof -
    from that ps have "find' validBidRequests (\<lambda>r. getProp (params r) ''ssat'') = Inr None"
      by (intro find'_none) auto
    with w have "w = None" by simp
    with res show ?thesis by simp
  qed
  from first none show ?thesis by blast
qed

lemma gdpr_when_returned:
  assumes "buildRequests u env validBidRequests bidderRequest = Inr req"
  shows "(p_gdpr (data req) \<noteq> None) =
           (\<exists>c. gdprConsent bidderRequest = Some c
              \<and> consentString c \<noteq> Null \<and> consentString c \<noteq> Undefined
              \<and> gdprApplies c \<noteq> Null \<and> gdprApplies c \<noteq> Undefined)
       \<and> (\<forall>c. gdprConsent bidderRequest = Some c
              \<and> consentString c \<noteq> Null \<and> consentString c \<noteq> Undefined
              \<and> gdprApplies c \<noteq> Null \<and> gdprApplies c \<noteq> Undefined
            \<longrightarrow> p_gdpr (data req) = Some \<lparr>consent = consentString c, applies = gdprApplies c\<rparr>)"
proof -
  from buildRequests_Inr[OF assms] have "p_gdpr (data req) =
         (case gdprConsent bidderRequest of None \<Rightarrow> None
          | Some c \<Rightarrow> if consentString c \<noteq> Null \<and> consentString c \<noteq> Undefined
                    \<and> gdprApplies c \<noteq> Null \<and> gdprApplies c \<noteq> Undefined
               then Some \<lparr>consent = consentString c, applies = gdprApplies c\<rparr> else None)"
    by blast
  then show ?thesis by (cases "gdprConsent bidderRequest") auto
qed

lemma url_when_returned:
  assumes "buildRequests u env validBidRequests bidderRequest = Inr req"
    and "bids bidderRequest = anyBid # rest"
  shows "url req = utils_buildUrl u
       \<lparr>protocol = ''https'',
        hostname = (if readProp (params anyBid) ''host'' = Undefined then Str DEFAULT_HOST
                    else readProp (params anyBid) ''host''),
        port = (if truthy (readProp (params anyBid) ''securePort'')
                then readProp (params anyBid) ''securePort''
                else if readProp (params anyBid) ''port'' = Undefined then Str DEFAULT_PORT
                else readProp (params anyBid) ''port''),
        pathname = (if readProp (params anyBid) ''path'' = Undefined then Str DEFAULT_PATH
                    else readProp (params anyBid) ''path'')\<rparr>"
proof -
  from buildRequests_Inr[OF assms(1)] assms(2)
  have t: "buildUrl u (params anyBid) = Inr (url req)" by auto
  then show ?thesis
    by (auto simp: buildUrl_def andThen_eq_Inr getProp_eq_Inr orDefault_def Let_def)
qed

section \<open>The payload and the url\<close>

text \<open>
  C1. The claim: in the payload, \<open>yl2\<close> is the explicit \<open>yl2\<close> of the first validated request
  that sets one, an explicit \<open>false\<close> included, before the persisted flag of the storage
  (\<open>"1"\<close> meaning true), before \<open>false\<close>. The code looks for the first request whose \<open>yl2\<close>
  is truthy, so an explicit \<open>false\<close> is passed over and the persisted flag decides, as the
  adapter's test "should use yl2 value from localStorage" expects. What holds: \<open>yl2\<close> is
  the \<open>yl2\<close> of the first validated request whose \<open>yl2\<close> is truthy; where no validated
  request has a truthy \<open>yl2\<close>, it is true exactly when the persisted flag is \<open>"1"\<close>.
\<close>

theorem buildRequests_yl2:
  assumes "buildRequests u env validBidRequests bidderRequest = Inr req"
  shows "(\<forall>pre r post. validBidRequests = pre @ r # post
            \<and> (\<forall>x\<in>set pre. \<not> truthy (readProp (params x) ''yl2''))
            \<and> truthy (readProp (params r) ''yl2'')
          \<longrightarrow> p_yl2 (data req) = readProp (params r) ''yl2'')
       \<and> ((\<forall>x\<in>set validBidRequests. \<not> truthy (readProp (params x) ''yl2''))
          \<longrightarrow> (\<exists>storage. localStorage env = Some storage
                \<and> p_yl2 (data req) = Bool (storage ''sdgYieldtest'' = Some ''1'')))"
proof -
  from buildRequests_Inr[OF assms] obtain y where
    y: "find' validBidRequests (\<lambda>r. getProp (params r) ''yl2'') = Inr y"
    and res: "case y of Some r \<Rightarrow> p_yl2 (data req) = readProp (params r) ''yl2''
         | None \<Rightarrow> \<exists>st. localStorage env = Some st
                    \<and> p_yl2 (data req) = Bool (st ''sdgYieldtest'' = Some ''1'')"
    and pb: "pushBids u env validBidRequests = Inr (p_bids (data req))" by blast
  from pushBids_params[OF pb] have
    ps: "\<forall>r\<in>set validBidRequests. getProp (params r) ''yl2'' = Inr (readProp (params r) ''yl2'')"
    by (simp add: getProp_eq_Inr)
  have first: "p_yl2 (data req) = readProp (params r) ''yl2''"
    if "validBidRequests = pre @ r # post"
      "\<forall>x\<in>set pre. \<not> truthy (readProp (params x) ''yl2'')"
      "truthy (readProp (params r) ''yl2'')" for pre r post
  proof -
    from that ps have "find' (pre @ r # post) (\<lambda>r. getProp (params r) ''yl2'') = Inr (Some r)"
      by (intro find'_first[where v = "readProp (params r) ''yl2''"]) auto
    with y that(1) have "y = Some r" by simp
    with res show ?thesis by simp
  qed
  have none: "\<exists>storage. localStorage env = Some storage
                \<and> p_yl2 (data req) = Bool (storage ''sdgYieldtest'' = Some ''1'')"
    if "\<forall>x\<in>set validBidRequests. \<not> truthy (readProp (params x) ''yl2'')"
  proof -
    from that ps have "find' validBidRequests (\<lambda>r. getProp (params r) ''yl2'') = Inr None"
      by (intro find'_none) auto
    with y have "y = None" by simp
    with res show ?thesis by simp
  qed
  from first none show ?thesis by blast
qed

theorem buildRequests_yl2_witness:
  "(\<exists>req. buildRequests sampleUtils (setupNestedWindows 13500 Map.empty)
            [bid1 (Obj [''sid'' \<mapsto> Str ''NDA='', ''yl2'' \<mapsto> Bool False]),
             bid2 (Obj [''sid'' \<mapsto> Str ''ODA='', ''yl2'' \<mapsto> Bool True])]
            (buildBidderRequest
               [bid1 (Obj [''sid'' \<mapsto> Str ''NDA='', ''yl2'' \<mapsto> Bool False]),
                bid2 (Obj [''sid'' \<mapsto> Str ''ODA='', ''yl2'' \<mapsto> Bool True])] None)
          = Inr req
        \<and> p_yl2 (data req) = Bool True)
   \<and> (\<exists>req. buildRequests sampleUtils (setupNestedWindows 13500 [''sdgYieldtest'' \<mapsto> ''1''])
            [bid1 (Obj [''sid'' \<mapsto> Str ''NDA='', ''yl2'' \<mapsto> Bool False])]
            (buildBidderRequest
               [bid1 (Obj [''sid'' \<mapsto> Str ''NDA='', ''yl2'' \<mapsto> Bool False])] None)
          = Inr req
        \<and> p_yl2 (data req) = Bool True)"
proof -
  let ?a = "bid1 (Obj [''sid'' \<mapsto> Str ''NDA='', ''yl2'' \<mapsto> Bool False])"
  let ?b = "bid2 (Obj [''sid'' \<mapsto> Str ''ODA='', ''yl2'' \<mapsto> Bool True])"
  obtain req where run: "buildRequests sampleUtils (setupNestedWindows 13500 Map.empty)
      [?a, ?b] (buildBidderRequest [?a, ?b] None) = Inr req"
    using buildRequests_returns[of "buildBidderRequest [?a, ?b] None" ?a "[?b]"
          "[?a, ?b]" sampleUtils "setupNestedWindows 13500 Map.empty"]
    by (auto simp: sample_defs)
  from buildRequests_yl2[OF run] have
    "[?a, ?b] = [?a] @ ?b # []
       \<and> (\<forall>x\<in>set [?a]. \<not> truthy (readProp (params x) ''yl2''))
       \<and> truthy (readProp (params ?b) ''yl2'')
     \<longrightarrow> p_yl2 (data req) = readProp (params ?b) ''yl2''" by blast
  then have 1: "p_yl2 (data req) = Bool True" by (simp add: bid1_def bid2_def)
  obtain req' where run': "buildRequests sampleUtils
      (setupNestedWindows 13500 [''sdgYieldtest'' \<mapsto> ''1''])
      [?a] (buildBidderRequest [?a] None) = Inr req'"
    using buildRequests_returns[of "buildBidderRequest [?a] None" ?a "[]"
          "[?a]" sampleUtils "setupNestedWindows 13500 [''sdgYieldtest'' \<mapsto> ''1'']"]
    by (auto simp: sample_defs)
  from buildRequests_yl2[OF run'] have
    "(\<forall>x\<in>set [?a]. \<not> truthy (readProp (params x) ''yl2''))
     \<longrightarrow> (\<exists>storage. localStorage (setupNestedWindows 13500 [''sdgYieldtest'' \<mapsto> ''1''])
                      = Some storage
                \<and> p_yl2 (data req') = Bool (storage ''sdgYieldtest'' = Some ''1''))" by blast
  then have 2: "p_yl2 (data req') = Bool True"
    by (simp add: bid1_def setupNestedWindows_def)
  from run 1 run' 2 show ?thesis by blast
qed

text \<open>
  The sample of that test: one request with \<open>yl2: false\<close>, and \<open>sdgYieldtest\<close> set to \<open>"1"\<close>
  in the storage. The payload has \<open>yl2 = true\<close>.
\<close>

theorem buildRequests_yl2_counterexample:
  "readProp (params (bid1 (Obj [''sid'' \<mapsto> Str ''NDA='', ''yl2'' \<mapsto> Bool False]))) ''yl2''
     = Bool False
   \<and> map_sum id (p_yl2 \<circ> data)
       (buildRequests sampleUtils (setupNestedWindows 13500 [''sdgYieldtest'' \<mapsto> ''1''])
          [bid1 (Obj [''sid'' \<mapsto> Str ''NDA='', ''yl2'' \<mapsto> Bool False])]
          (buildBidderRequest [bid1 (Obj [''sid'' \<mapsto> Str ''NDA='', ''yl2'' \<mapsto> Bool False])] None))
     = Inr (Bool True)"
  by (simp add: sample_defs run_defs Let_def)

text \<open>
  C3. For a batch of validated requests (each passes \<open>isBidRequestValid\<close>) on which
  \<open>buildRequests\<close> can run (a first bid with parameters, sizes that can be read, a storage
  that can be read or a truthy \<open>yl2\<close>), \<open>buildRequests\<close> returns a request, and the \<open>ssat\<close>
  of its payload is the \<open>ssat\<close> of the first request, in the order of the list, that sets
  one, whatever the requests after it set; and it is 2 where no request sets one. A
  request sets \<open>ssat\<close> where the property is not \<open>undefined\<close>. Validation is what makes every
  set value truthy (1 or 2), and so found by \<open>find\<close>.
\<close>

theorem buildRequests_ssat:
  assumes "bids bidderRequest = anyBid # rest"
    and "params anyBid \<noteq> Undefined" and "params anyBid \<noteq> Null"
    and "\<forall>r\<in>set validBidRequests. fst (isBidRequestValid r) = Inr True"
    and "\<forall>r\<in>set validBidRequests.
           \<exists>v. utils_deepAccess u r ''mediaTypes.banner.sizes'' = Inr v"
    and "localStorage env \<noteq> None
         \<or> (\<exists>r\<in>set validBidRequests. truthy (readProp (params r) ''yl2''))"
  shows "\<exists>req. buildRequests u env validBidRequests bidderRequest = Inr req
       \<and> (\<forall>pre r post. validBidRequests = pre @ r # post
            \<and> (\<forall>x\<in>set pre. readProp (params x) ''ssat'' = Undefined)
            \<and> readProp (params r) ''ssat'' \<noteq> Undefined
          \<longrightarrow> p_ssat (data req) = readProp (params r) ''ssat'')
       \<and> ((\<forall>x\<in>set validBidRequests. readProp (params x) ''ssat'' = Undefined)
          \<longrightarrow> p_ssat (data req) = Num 2)"
proof -
  from assms(4) valid_params
  have pv: "\<forall>r\<in>set validBidRequests. params r \<noteq> Undefined \<and> params r \<noteq> Null" by blast
  from buildRequests_returns[OF assms(1,2,3) pv assms(5,6)] obtain req where
    run: "buildRequests u env validBidRequests bidderRequest = Inr req" ..
  from run ssat_when_returned[OF run assms(4)] show ?thesis by blast
qed

theorem buildRequests_ssat_witness:
  "fst (isBidRequestValid (bid1 (Obj [''sid'' \<mapsto> Str ''NDA='']))) = Inr True
   \<and> fst (isBidRequestValid (bid2 (Obj [''sid'' \<mapsto> Str ''ODA='']))) = Inr True
   \<and> fst (isBidRequestValid (bid2 (Obj [''sid'' \<mapsto> Str ''ODA='', ''ssat'' \<mapsto> Num 1]))) = Inr True
   \<and> fst (isBidRequestValid (bid1 (Obj [''sid'' \<mapsto> Str ''NDA='', ''ssat'' \<mapsto> Num 2]))) = Inr True
   \<and> (\<exists>req. buildRequests sampleUtils (setupNestedWindows 13500 Map.empty)
            [bid1 (Obj [''sid'' \<mapsto> Str ''NDA='']),
             bid2 (Obj [''sid'' \<mapsto> Str ''ODA='', ''ssat'' \<mapsto> Num 1]),
             bid1 (Obj [''sid'' \<mapsto> Str ''NDA='', ''ssat'' \<mapsto> Num 2])]
            (buildBidderRequest
               [bid1 (Obj [''sid'' \<mapsto> Str ''NDA='']),
                bid2 (Obj [''sid'' \<mapsto> Str ''ODA='', ''ssat'' \<mapsto> Num 1]),
                bid1 (Obj [''sid'' \<mapsto> Str ''NDA='', ''ssat'' \<mapsto> Num 2])] None)
          = Inr req
        \<and> p_ssat (data req) = Num 1)
   \<and> (\<exists>req. buildRequests sampleUtils (setupNestedWindows 13500 Map.empty)
            [bid1 (Obj [''sid'' \<mapsto> Str ''NDA='']), bid2 (Obj [''sid'' \<mapsto> Str ''ODA=''])]
            (buildBidderRequest
               [bid1 (Obj [''sid'' \<mapsto> Str ''NDA='']), bid2 (Obj [''sid'' \<mapsto> Str ''ODA=''])] None)
          = Inr req
        \<and> p_ssat (data req) = Num 2)"
proof -
  let ?a = "bid1 (Obj [''sid'' \<mapsto> Str ''NDA=''])"
  let ?b = "bid2 (Obj [''sid'' \<mapsto> Str ''ODA='', ''ssat'' \<mapsto> Num 1])"
  let ?c = "bid1 (Obj [''sid'' \<mapsto> Str ''NDA='', ''ssat'' \<mapsto> Num 2])"
  let ?d = "bid2 (Obj [''sid'' \<mapsto> Str ''ODA=''])"
  let ?env = "setupNestedWindows 13500 Map.empty"
  have va: "fst (isBidRequestValid ?a) = Inr True"
    by (simp add: isBidRequestValid_def validators_def createValidator_def isBanner_def
        getProp_def bid1_def bannerOf_def)
  have vb: "fst (isBidRequestValid ?b) = Inr True"
    by (simp add: isBidRequestValid_def validators_def createValidator_def isBanner_def
        getProp_def bid2_def bannerOf_def)
  have vc: "fst (isBidRequestValid ?c) = Inr True"
    by (simp add: isBidRequestValid_def validators_def createValidator_def isBanner_def
        getProp_def bid1_def bannerOf_def)
  have vd: "fst (isBidRequestValid ?d) = Inr True"
    by (simp add: isBidRequestValid_def validators_def createValidator_def isBanner_def
        getProp_def bid2_def bannerOf_def)
  have st: "localStorage ?env \<noteq> None \<or> P" for P
    by (simp add: setupNestedWindows_def)
  have da: "\<exists>v. utils_deepAccess sampleUtils r ''mediaTypes.banner.sizes'' = Inr v" for r
    by (simp add: sampleUtils_def sampleDeepAccess_def)
  have pa: "params ?a \<noteq> Undefined" "params ?a \<noteq> Null" by (simp_all add: bid1_def)
  have "\<exists>req. buildRequests sampleUtils ?env [?a, ?b, ?c] (buildBidderRequest [?a, ?b, ?c] None)
            = Inr req
       \<and> (\<forall>pre r post. [?a, ?b, ?c] = pre @ r # post
            \<and> (\<forall>x\<in>set pre. readProp (params x) ''ssat'' = Undefined)
            \<and> readProp (params r) ''ssat'' \<noteq> Undefined
          \<longrightarrow> p_ssat (data req) = readProp (params r) ''ssat'')
       \<and> ((\<forall>x\<in>set [?a, ?b, ?c]. readProp (params x) ''ssat'' = Undefined)
          \<longrightarrow> p_ssat (data req) = Num 2)"
    by (rule buildRequests_ssat[where anyBid = ?a and rest = "[?b, ?c]"])
      (use va vb vc pa st da in \<open>simp_all add: buildBidderRequest_def\<close>)
  then obtain req where run: "buildRequests sampleUtils ?env [?a, ?b, ?c]
      (buildBidderRequest [?a, ?b, ?c] None) = Inr req"
    and first: "[?a, ?b, ?c] = [?a] @ ?b # [?c]
       \<and> (\<forall>x\<in>set [?a]. readProp (params x) ''ssat'' = Undefined)
       \<and> readProp (params ?b) ''ssat'' \<noteq> Undefined
     \<longrightarrow> p_ssat (data req) = readProp (params ?b) ''ssat''" by blast
  from first have 1: "p_ssat (data req) = Num 1" by (simp add: bid1_def bid2_def)
  have "\<exists>req. buildRequests sampleUtils ?env [?a, ?d] (buildBidderRequest [?a, ?d] None)
            = Inr req
       \<and> (\<forall>pre r post. [?a, ?d] = pre @ r # post
            \<and> (\<forall>x\<in>set pre. readProp (params x) ''ssat'' = Undefined)
            \<and> readProp (params r) ''ssat'' \<noteq> Undefined
          \<longrightarrow> p_ssat (data req) = readProp (params r) ''ssat'')
       \<and> ((\<forall>x\<in>set [?a, ?d]. readProp (params x) ''ssat'' = Undefined)
          \<longrightarrow> p_ssat (data req) = Num 2)"
    by (rule buildRequests_ssat[where anyBid = ?a and rest = "[?d]"])
      (use va vd pa st da in \<open>simp_all add: buildBidderRequest_def\<close>)
  then obtain req' where run': "buildRequests sampleUtils ?env [?a, ?d]
      (buildBidderRequest [?a, ?d] None) = Inr req'"
    and none: "(\<forall>x\<in>set [?a, ?d]. readProp (params x) ''ssat'' = Undefined)
          \<longrightarrow> p_ssat (data req') = Num 2" by blast
  from none have 2: "p_ssat (data req') = Num 2" by (simp add: bid1_def bid2_def)
  from va vd vb vc run 1 run' 2 show ?thesis by blast
qed

text \<open>
  C4. On every batch on which \<open>buildRequests\<close> can run, it returns a request whose
  payload has the \<open>gdpr\<close> object exactly when the batch has a consent object whose
  \<open>consentString\<close> and \<open>gdprApplies\<close> are both neither \<open>null\<close> nor \<open>undefined\<close>; it then
  holds these two values, so \<open>gdprApplies: false\<close> gives \<open>applies: false\<close>.
\<close>

theorem buildRequests_gdpr:
  assumes "bids bidderRequest = anyBid # rest"
    and "params anyBid \<noteq> Undefined" and "params anyBid \<noteq> Null"
    and "\<forall>r\<in>set validBidRequests. params r \<noteq> Undefined \<and> params r \<noteq> Null"
    and "\<forall>r\<in>set validBidRequests.
           \<exists>v. utils_deepAccess u r ''mediaTypes.banner.sizes'' = Inr v"
    and "localStorage env \<noteq> None
         \<or> (\<exists>r\<in>set validBidRequests. truthy (readProp (params r) ''yl2''))"
  shows "\<exists>req. buildRequests u env validBidRequests bidderRequest = Inr req
       \<and> (p_gdpr (data req) \<noteq> None) =
           (\<exists>c. gdprConsent bidderRequest = Some c
              \<and> consentString c \<noteq> Null \<and> consentString c \<noteq> Undefined
              \<and> gdprApplies c \<noteq> Null \<and> gdprApplies c \<noteq> Undefined)
       \<and> (\<forall>c. gdprConsent bidderRequest = Some c
              \<and> consentString c \<noteq> Null \<and> consentString c \<noteq> Undefined
              \<and> gdprApplies c \<noteq> Null \<and> gdprApplies c \<noteq> Undefined
            \<longrightarrow> p_gdpr (data req) = Some \<lparr>consent = consentString c, applies = gdprApplies c\<rparr>)"
proof -
  from buildRequests_returns[OF assms] obtain req where
    run: "buildRequests u env validBidRequests bidderRequest = Inr req" ..
  from run gdpr_when_returned[OF run] show ?thesis by blast
qed

theorem buildRequests_gdpr_witness:
  "(\<exists>req. buildRequests sampleUtils (setupNestedWindows 13500 Map.empty)
            [bid1 (Obj [''sid'' \<mapsto> Str ''NDA=''])]
            (buildBidderRequest [bid1 (Obj [''sid'' \<mapsto> Str ''NDA=''])]
               (Some \<lparr>consentString = Str ''UGluZyBQb25n'', gdprApplies = Bool False\<rparr>))
          = Inr req
        \<and> p_gdpr (data req) = Some \<lparr>consent = Str ''UGluZyBQb25n'', applies = Bool False\<rparr>)
   \<and> (\<exists>req. buildRequests sampleUtils (setupNestedWindows 13500 Map.empty)
            [bid1 (Obj [''sid'' \<mapsto> Str ''NDA=''])]
            (buildBidderRequest [bid1 (Obj [''sid'' \<mapsto> Str ''NDA=''])]
               (Some \<lparr>consentString = Null, gdprApplies = Bool True\<rparr>))
          = Inr req
        \<and> p_gdpr (data req) = None)
   \<and> (\<exists>req. buildRequests sampleUtils (setupNestedWindows 13500 Map.empty)
            [bid1 (Obj [''sid'' \<mapsto> Str ''NDA=''])]
            (buildBidderRequest [bid1 (Obj [''sid'' \<mapsto> Str ''NDA=''])]
               (Some \<lparr>consentString = Str ''UGluZyBQb25n'', gdprApplies = Undefined\<rparr>))
          = Inr req
        \<and> p_gdpr (data req) = None)
   \<and> (\<exists>req. buildRequests sampleUtils (setupNestedWindows 13500 Map.empty)
            [bid1 (Obj [''sid'' \<mapsto> Str ''NDA=''])]
            (buildBidderRequest [bid1 (Obj [''sid'' \<mapsto> Str ''NDA=''])]
               None)
          = Inr req
        \<and> p_gdpr (data req) = None)"
proof -
  let ?a = "bid1 (Obj [''sid'' \<mapsto> Str ''NDA=''])"
  let ?env = "setupNestedWindows 13500 Map.empty"
  have st: "localStorage ?env \<noteq> None \<or> P" for P
    by (simp add: setupNestedWindows_def)
  have da: "\<exists>v. utils_deepAccess sampleUtils r ''mediaTypes.banner.sizes'' = Inr v" for r
    by (simp add: sampleUtils_def sampleDeepAccess_def)
  have pa: "params ?a \<noteq> Undefined" "params ?a \<noteq> Null" by (simp_all add: bid1_def)
  have each: "\<exists>req. buildRequests sampleUtils ?env [?a] (buildBidderRequest [?a] k) = Inr req
       \<and> (p_gdpr (data req) \<noteq> None) =
           (\<exists>c. gdprConsent (buildBidderRequest [?a] k) = Some c
              \<and> consentString c \<noteq> Null \<and> consentString c \<noteq> Undefined
              \<and> gdprApplies c \<noteq> Null \<and> gdprApplies c \<noteq> Undefined)
       \<and> (\<forall>c. gdprConsent (buildBidderRequest [?a] k) = Some c
              \<and> consentString c \<noteq> Null \<and> consentString c \<noteq> Undefined
              \<and> gdprApplies c \<noteq> Null \<and> gdprApplies c \<noteq> Undefined
            \<longrightarrow> p_gdpr (data req) = Some \<lparr>consent = consentString c, applies = gdprApplies c\<rparr>)"
    for k
    by (rule buildRequests_gdpr[where anyBid = ?a and rest = "[]"])
      (use pa st da in \<open>simp_all add: buildBidderRequest_def\<close>)
  from each[of "Some \<lparr>consentString = Str ''UGluZyBQb25n'', gdprApplies = Bool False\<rparr>"]
  have 1: "\<exists>req. buildRequests sampleUtils ?env [?a] (buildBidderRequest [?a]
               (Some \<lparr>consentString = Str ''UGluZyBQb25n'', gdprApplies = Bool False\<rparr>)) = Inr req
        \<and> p_gdpr (data req) = Some \<lparr>consent = Str ''UGluZyBQb25n'', applies = Bool False\<rparr>"
    by (auto simp: buildBidderRequest_def)
  from each[of "Some \<lparr>consentString = Null, gdprApplies = Bool True\<rparr>"]
  have 2: "\<exists>req. buildRequests sampleUtils ?env [?a] (buildBidderRequest [?a]
               (Some \<lparr>consentString = Null, gdprApplies = Bool True\<rparr>)) = Inr req
        \<and> p_gdpr (data req) = None"
    by (auto simp: buildBidderRequest_def)
  from each[of "Some \<lparr>consentString = Str ''UGluZyBQb25n'', gdprApplies = Undefined\<rparr>"]
  have 3: "\<exists>req. buildRequests sampleUtils ?env [?a] (buildBidderRequest [?a]
               (Some \<lparr>consentString = Str ''UGluZyBQb25n'', gdprApplies = Undefined\<rparr>)) = Inr req
        \<and> p_gdpr (data req) = None"
    by (auto simp: buildBidderRequest_def)
  from each[of None]
  have 4: "\<exists>req. buildRequests sampleUtils ?env [?a] (buildBidderRequest [?a] None) = Inr req
        \<and> p_gdpr (data req) = None"
    by (auto simp: buildBidderRequest_def)
  from 1 2 3 4 show ?thesis by blast
qed

text \<open>
  C5. The claim: the url has the scheme \<open>https\<close> whatever the protocol of the window, the
  host and the path default to the vendor's, a \<open>securePort\<close> override always wins over a
  \<open>port\<close> override, and the parameters are read from the first bid of
  \<open>bidderRequest.bids\<close>, not from the validated requests. The code tests \<open>if (securePort)\<close>:
  a \<open>securePort\<close> that is not truthy (the empty string, 0) does not win, and the \<open>port\<close>
  stays. What holds, on every batch on which \<open>buildRequests\<close> can run: it returns a request
  whose url is what \<open>utils.buildUrl\<close> makes of the protocol \<open>https\<close>, and of the host, port
  and path read from the parameters of the first bid of \<open>bidderRequest.bids\<close>: the host
  and the path are the defaults \<open>hb.adscale.de\<close> and \<open>/dsh\<close> where the parameter is
  \<open>undefined\<close>, and the port is \<open>securePort\<close> where that is truthy, else \<open>port\<close>, else empty.
  Neither the window (its protocol) nor the list of the validated requests enters.
\<close>

theorem buildRequests_url:
  assumes "bids bidderRequest = anyBid # rest"
    and "params anyBid \<noteq> Undefined" and "params anyBid \<noteq> Null"
    and "\<forall>r\<in>set validBidRequests. params r \<noteq> Undefined \<and> params r \<noteq> Null"
    and "\<forall>r\<in>set validBidRequests.
           \<exists>v. utils_deepAccess u r ''mediaTypes.banner.sizes'' = Inr v"
    and "localStorage env \<noteq> None
         \<or> (\<exists>r\<in>set validBidRequests. truthy (readProp (params r) ''yl2''))"
  shows "\<exists>req. buildRequests u env validBidRequests bidderRequest = Inr req
     \<and> url req = utils_buildUrl u
       \<lparr>protocol = ''https'',
        hostname = (if readProp (params anyBid) ''host'' = Undefined then Str DEFAULT_HOST
                    else readProp (params anyBid) ''host''),
        port = (if truthy (readProp (params anyBid) ''securePort'')
                then readProp (params anyBid) ''securePort''
                else if readProp (params anyBid) ''port'' = Undefined then Str DEFAULT_PORT
                else readProp (params anyBid) ''port''),
        pathname = (if readProp (params anyBid) ''path'' = Undefined then Str DEFAULT_PATH
                    else readProp (params anyBid) ''path'')\<rparr>"
proof -
  from buildRequests_returns[OF assms] obtain req where
    run: "buildRequests u env validBidRequests bidderRequest = Inr req" ..
  from run url_when_returned[OF run assms(1)] show ?thesis by blast
qed

theorem buildRequests_url_witness:
  "(\<exists>req. buildRequests sampleUtils (setupNestedWindows 13500 Map.empty)
            [bid2 (Obj [''sid'' \<mapsto> Str ''ODA=''])]
            (buildBidderRequest
               [bid1 (Obj [''sid'' \<mapsto> Str ''ODA='', ''host'' \<mapsto> Str ''other.com'',
                          ''port'' \<mapsto> Str ''234'', ''securePort'' \<mapsto> Str ''871'',
                          ''path'' \<mapsto> Str ''/xyz'']),
                bid2 (Obj [''sid'' \<mapsto> Str ''ODA=''])] None)
          = Inr req
        \<and> url req = Some ''https://other.com:871/xyz'')
   \<and> (\<exists>req. buildRequests sampleUtils (setupNestedWindows 13500 Map.empty)
            [bid1 (Obj [''sid'' \<mapsto> Str ''ODA='', ''port'' \<mapsto> Str ''234'',
                          ''path'' \<mapsto> Str ''/xyz''])]
            (buildBidderRequest
               [bid1 (Obj [''sid'' \<mapsto> Str ''ODA='', ''port'' \<mapsto> Str ''234'',
                          ''path'' \<mapsto> Str ''/xyz''])] None)
          = Inr req
        \<and> url req = Some ''https://hb.adscale.de:234/xyz'')
   \<and> (\<exists>req. buildRequests sampleUtils (setupNestedWindows 13500 Map.empty)
            [bid1 (Obj [''sid'' \<mapsto> Str ''NDA=''])]
            (buildBidderRequest
               [bid1 (Obj [''sid'' \<mapsto> Str ''NDA=''])] None)
          = Inr req
        \<and> url req = Some ''https://hb.adscale.de/dsh'')
   \<and> (\<exists>req. buildRequests sampleUtils (setupNestedWindows 13500 Map.empty)
            [bid1 (Obj [''sid'' \<mapsto> Str ''ODA='', ''port'' \<mapsto> Str ''234'',
                          ''securePort'' \<mapsto> Str []])]
            (buildBidderRequest
               [bid1 (Obj [''sid'' \<mapsto> Str ''ODA='', ''port'' \<mapsto> Str ''234'',
                          ''securePort'' \<mapsto> Str []])] None)
          = Inr req
        \<and> url req = Some ''https://hb.adscale.de:234/dsh'')"
proof -
  let ?env = "setupNestedWindows 13500 Map.empty"
  have st: "localStorage ?env \<noteq> None \<or> P" for P
    by (simp add: setupNestedWindows_def)
  have da: "\<exists>v. utils_deepAccess sampleUtils r ''mediaTypes.banner.sizes'' = Inr v" for r
    by (simp add: sampleUtils_def sampleDeepAccess_def)
  have gen: "\<exists>req. buildRequests sampleUtils ?env valid (buildBidderRequest (bid1 ps # others) None)
          = Inr req
     \<and> url req = utils_buildUrl sampleUtils
       \<lparr>protocol = ''https'',
        hostname = (if readProp (params (bid1 ps)) ''host'' = Undefined then Str DEFAULT_HOST
                    else readProp (params (bid1 ps)) ''host''),
        port = (if truthy (readProp (params (bid1 ps)) ''securePort'')
                then readProp (params (bid1 ps)) ''securePort''
                else if readProp (params (bid1 ps)) ''port'' = Undefined then Str DEFAULT_PORT
                else readProp (params (bid1 ps)) ''port''),
        pathname = (if readProp (params (bid1 ps)) ''path'' = Undefined then Str DEFAULT_PATH
                    else readProp (params (bid1 ps)) ''path'')\<rparr>"
    if "ps \<noteq> Undefined" "ps \<noteq> Null"
      "\<forall>r\<in>set valid. params r \<noteq> Undefined \<and> params r \<noteq> Null" for ps valid others
    by (rule buildRequests_url[where anyBid = "bid1 ps" and rest = others])
      (use that st da in \<open>simp_all add: buildBidderRequest_def bid1_def\<close>)
  from gen[of "Obj [''sid'' \<mapsto> Str ''ODA='', ''host'' \<mapsto> Str ''other.com'',
                          ''port'' \<mapsto> Str ''234'', ''securePort'' \<mapsto> Str ''871'',
                          ''path'' \<mapsto> Str ''/xyz'']" "[bid2 (Obj [''sid'' \<mapsto> Str ''ODA=''])]" "[bid2 (Obj [''sid'' \<mapsto> Str ''ODA=''])]"]
  have 1: "\<exists>req. buildRequests sampleUtils ?env [bid2 (Obj [''sid'' \<mapsto> Str ''ODA=''])]
            (buildBidderRequest [bid1 (Obj [''sid'' \<mapsto> Str ''ODA='', ''host'' \<mapsto> Str ''other.com'',
                          ''port'' \<mapsto> Str ''234'', ''securePort'' \<mapsto> Str ''871'',
                          ''path'' \<mapsto> Str ''/xyz'']),
                bid2 (Obj [''sid'' \<mapsto> Str ''ODA=''])] None) = Inr req
        \<and> url req = Some ''https://other.com:871/xyz''"
    by (simp add: sample_defs)
  from gen[of "Obj [''sid'' \<mapsto> Str ''ODA='', ''port'' \<mapsto> Str ''234'',
                          ''path'' \<mapsto> Str ''/xyz'']" "[bid1 (Obj [''sid'' \<mapsto> Str ''ODA='', ''port'' \<mapsto> Str ''234'',
                          ''path'' \<mapsto> Str ''/xyz''])]" "[]"]
  have 2: "\<exists>req. buildRequests sampleUtils ?env [bid1 (Obj [''sid'' \<mapsto> Str ''ODA='', ''port'' \<mapsto> Str ''234'',
                          ''path'' \<mapsto> Str ''/xyz''])]
            (buildBidderRequest [bid1 (Obj [''sid'' \<mapsto> Str ''ODA='', ''port'' \<mapsto> Str ''234'',
                          ''path'' \<mapsto> Str ''/xyz''])] None) = Inr req
        \<and> url req = Some ''https://hb.adscale.de:234/xyz''"
    by (simp add: sample_defs DEFAULT_HOST_def)
  from gen[of "Obj [''sid'' \<mapsto> Str ''NDA='']" "[bid1 (Obj [''sid'' \<mapsto> Str ''NDA=''])]" "[]"]
  have 3: "\<exists>req. buildRequests sampleUtils ?env [bid1 (Obj [''sid'' \<mapsto> Str ''NDA=''])]
            (buildBidderRequest [bid1 (Obj [''sid'' \<mapsto> Str ''NDA=''])] None) = Inr req
        \<and> url req = Some ''https://hb.adscale.de/dsh''"
    by (simp add: sample_defs DEFAULT_HOST_def DEFAULT_PATH_def DEFAULT_PORT_def)
  from gen[of "Obj [''sid'' \<mapsto> Str ''ODA='', ''port'' \<mapsto> Str ''234'',
                          ''securePort'' \<mapsto> Str []]" "[bid1 (Obj [''sid'' \<mapsto> Str ''ODA='', ''port'' \<mapsto> Str ''234'',
                          ''securePort'' \<mapsto> Str []])]" "[]"]
  have 4: "\<exists>req. buildRequests sampleUtils ?env [bid1 (Obj [''sid'' \<mapsto> Str ''ODA='', ''port'' \<mapsto> Str ''234'',
                          ''securePort'' \<mapsto> Str []])]
            (buildBidderRequest [bid1 (Obj [''sid'' \<mapsto> Str ''ODA='', ''port'' \<mapsto> Str ''234'',
                          ''securePort'' \<mapsto> Str []])] None) = Inr req
        \<and> url req = Some ''https://hb.adscale.de:234/dsh''"
    by (simp add: sample_defs DEFAULT_HOST_def DEFAULT_PATH_def)
  from 1 2 3 4 show ?thesis by blast
qed

text \<open>
  A first bid with \<open>port: '234'\<close> and \<open>securePort: ''\<close>: the url has the port 234, both as
  the sample \<open>utils.buildUrl\<close> writes it and in the object that \<open>utils.buildUrl\<close> is given.
\<close>

theorem buildRequests_url_counterexample:
  "readProp (params (bid1 (Obj [''sid'' \<mapsto> Str ''ODA='', ''port'' \<mapsto> Str ''234'',
                          ''securePort'' \<mapsto> Str []]))) ''securePort'' = Str []
   \<and> readProp (params (bid1 (Obj [''sid'' \<mapsto> Str ''ODA='', ''port'' \<mapsto> Str ''234'',
                          ''securePort'' \<mapsto> Str []]))) ''port'' = Str ''234''
   \<and> map_sum id url
       (buildRequests sampleUtils (setupNestedWindows 13500 Map.empty)
          [bid1 (Obj [''sid'' \<mapsto> Str ''ODA='', ''port'' \<mapsto> Str ''234'',
                          ''securePort'' \<mapsto> Str []])]
          (buildBidderRequest [bid1 (Obj [''sid'' \<mapsto> Str ''ODA='', ''port'' \<mapsto> Str ''234'',
                          ''securePort'' \<mapsto> Str []])] None))
     = Inr (Some ''https://hb.adscale.de:234/dsh'')
   \<and> map_sum id url
       (buildRequests \<lparr>utils_buildUrl = id, utils_deepAccess = sampleDeepAccess\<rparr>
          (setupNestedWindows 13500 Map.empty)
          [bid1 (Obj [''sid'' \<mapsto> Str ''ODA='', ''port'' \<mapsto> Str ''234'',
                          ''securePort'' \<mapsto> Str []])]
          (buildBidderRequest [bid1 (Obj [''sid'' \<mapsto> Str ''ODA='', ''port'' \<mapsto> Str ''234'',
                          ''securePort'' \<mapsto> Str []])] None))
     = Inr \<lparr>protocol = ''https'', hostname = Str ''hb.adscale.de'', port = Str ''234'',
            pathname = Str ''/dsh''\<rparr>"
  by (simp add: sample_defs run_defs Let_def)

text \<open>
  C6. On every batch on which \<open>buildRequests\<close> can run, whose timeout and start of the
  auction are safe integers as is the clock, and where the time elapsed and the result are
  safe integers too, it returns a request and the \<open>timeout\<close> of the payload is the timeout
  of the batch minus the time elapsed since the start of the auction,
  \<open>Date.now() - auctionStart\<close>, exactly and without any clamping: it is negative where more
  time has elapsed than the timeout. With timeout 5000, start 10000 and the clock at 13500
  it is 1500; with the clock at 20000 it is -5000.
\<close>

theorem buildRequests_timeout:
  assumes "bids bidderRequest = anyBid # rest"
    and "params anyBid \<noteq> Undefined" and "params anyBid \<noteq> Null"
    and "\<forall>r\<in>set validBidRequests. params r \<noteq> Undefined \<and> params r \<noteq> Null"
    and "\<forall>r\<in>set validBidRequests.
           \<exists>v. utils_deepAccess u r ''mediaTypes.banner.sizes'' = Inr v"
    and "localStorage env \<noteq> None
         \<or> (\<exists>r\<in>set validBidRequests. truthy (readProp (params r) ''yl2''))"
    and "timeout bidderRequest = Some t" and "auctionStart bidderRequest = Some a"
    and "isSafeInteger t" and "isSafeInteger a" and "isSafeInteger (now env)"
    and "isSafeInteger (now env - a)" and "isSafeInteger (t - (now env - a))"
  shows "\<exists>req. buildRequests u env validBidRequests bidderRequest = Inr req
       \<and> p_timeout (data req) = Some (t - (now env - a))"
proof -
  from buildRequests_returns[OF assms(1-6)] obtain req where
    run: "buildRequests u env validBidRequests bidderRequest = Inr req" ..
  from buildRequests_Inr[OF run] have "p_timeout (data req) =
      minus_number (timeout bidderRequest)
        (minus_number (Some (now env)) (auctionStart bidderRequest))" by blast
  with assms(7,8) toDouble_safe[OF assms(12)] toDouble_safe[OF assms(13)]
  have "p_timeout (data req) = Some (t - (now env - a))"
    by (simp add: minus_number_def)
  with run show ?thesis by blast
qed

theorem buildRequests_timeout_witness:
  "(\<exists>req. buildRequests sampleUtils (setupNestedWindows 13500 Map.empty)
            [bid1 (Obj [''sid'' \<mapsto> Str ''NDA='']), bid2 (Obj [''sid'' \<mapsto> Str ''ODA=''])]
            (buildBidderRequest
               [bid1 (Obj [''sid'' \<mapsto> Str ''NDA='']), bid2 (Obj [''sid'' \<mapsto> Str ''ODA=''])] None)
          = Inr req
        \<and> p_timeout (data req) = Some 1500)
   \<and> (\<exists>req. buildRequests sampleUtils (setupNestedWindows 20000 Map.empty)
            [bid1 (Obj [''sid'' \<mapsto> Str ''NDA='']), bid2 (Obj [''sid'' \<mapsto> Str ''ODA=''])]
            (buildBidderRequest
               [bid1 (Obj [''sid'' \<mapsto> Str ''NDA='']), bid2 (Obj [''sid'' \<mapsto> Str ''ODA=''])] None)
          = Inr req
        \<and> p_timeout (data req) = Some (- 5000))"
proof -
  let ?a = "bid1 (Obj [''sid'' \<mapsto> Str ''NDA=''])"
  let ?b = "bid2 (Obj [''sid'' \<mapsto> Str ''ODA=''])"
  have st: "localStorage (setupNestedWindows k Map.empty) \<noteq> None \<or> P" for P k
    by (simp add: setupNestedWindows_def)
  have da: "\<exists>v. utils_deepAccess sampleUtils r ''mediaTypes.banner.sizes'' = Inr v" for r
    by (simp add: sampleUtils_def sampleDeepAccess_def)
  have pa: "params ?a \<noteq> Undefined" "params ?a \<noteq> Null" by (simp_all add: bid1_def)
  have pb: "params ?b \<noteq> Undefined" "params ?b \<noteq> Null" by (simp_all add: bid2_def)
  have nw: "now (setupNestedWindows k Map.empty) = k" for k
    by (simp add: setupNestedWindows_def)
  have "\<exists>req. buildRequests sampleUtils (setupNestedWindows 13500 Map.empty) [?a, ?b]
            (buildBidderRequest [?a, ?b] None) = Inr req
       \<and> p_timeout (data req) = Some (5000 - (now (setupNestedWindows 13500 Map.empty) - 10000))"
    by (rule buildRequests_timeout[where anyBid = ?a and rest = "[?b]"])
      (use pa pb st da in \<open>simp_all add: buildBidderRequest_def isSafeInteger_def nw\<close>)
  then have 1: "\<exists>req. buildRequests sampleUtils (setupNestedWindows 13500 Map.empty) [?a, ?b]
            (buildBidderRequest [?a, ?b] None) = Inr req
       \<and> p_timeout (data req) = Some 1500"
    by (simp add: nw)
  have "\<exists>req. buildRequests sampleUtils (setupNestedWindows 20000 Map.empty) [?a, ?b]
            (buildBidderRequest [?a, ?b] None) = Inr req
       \<and> p_timeout (data req) = Some (5000 - (now (setupNestedWindows 20000 Map.empty) - 10000))"
    by (rule buildRequests_timeout[where anyBid = ?a and rest = "[?b]"])
      (use pa pb st da in \<open>simp_all add: buildBidderRequest_def isSafeInteger_def nw\<close>)
  then have 2: "\<exists>req. buildRequests sampleUtils (setupNestedWindows 20000 Map.empty) [?a, ?b]
            (buildBidderRequest [?a, ?b] None) = Inr req
       \<and> p_timeout (data req) = Some (- 5000)"
    by (simp add: nw)
  from 1 2 show ?thesis by blast
qed

text \<open>
  C10. Where \<open>bidderRequest.bids\<close> is empty, \<open>buildRequests\<close> returns no request: every
  such call ends with an exception, at the latest at \<open>anyBid.userId\<close>, \<open>anyBid\<close> being
  \<open>undefined\<close>.
\<close>

theorem buildRequests_no_bids:
  assumes "bids bidderRequest = []"
  shows "\<exists>e. buildRequests u env validBidRequests bidderRequest = Inl e"
proof (cases "buildRequests u env validBidRequests bidderRequest")
  case (Inl e)
  then show ?thesis by blast
next
  case (Inr req)
  from buildRequests_Inr[OF Inr] assms show ?thesis by auto
qed

theorem buildRequests_no_bids_witness:
  "bids (buildBidderRequest [] None) = []
   \<and> (\<exists>e. buildRequests sampleUtils (setupNestedWindows 13500 Map.empty) []
              (buildBidderRequest [] None) = Inl e)
   \<and> buildRequests sampleUtils (setupNestedWindows 13500 Map.empty) []
              (buildBidderRequest [] None) = Inl TypeError"
proof -
  have e: "bids (buildBidderRequest [] None) = []" by (simp add: buildBidderRequest_def)
  have t: "buildRequests sampleUtils (setupNestedWindows 13500 Map.empty) []
              (buildBidderRequest [] None) = Inl TypeError"
    by (simp add: sample_defs run_defs Let_def)
  from e t buildRequests_no_bids[OF e, of sampleUtils "setupNestedWindows 13500 Map.empty" "[]"]
  show ?thesis by simp
qed

section \<open>Visibility\<close>

lemma visibleInWindow_True: "visibleInWindow (Some el) w = Inr True \<longleftrightarrow> chainInView el w"
  by (induction el w rule: chainInView.induct)
     (auto simp: overlaps_def split: option.splits)

lemma visibleInWindow_throws: "(\<exists>e. visibleInWindow (Some el) w = Inl e) \<longleftrightarrow> accessThrows el w"
  by (induction el w rule: accessThrows.induct)
     (auto split: option.splits)

text \<open>
  C7. \<open>elementInView\<close> returns \<open>true\<close> exactly when the element is found and is in view up
  the whole chain of windows, so only then; it returns \<open>undefined\<close> when the element is
  not found; and, the element found, it returns \<open>undefined\<close> exactly when an access of the
  walk throws, which is when \<open>visibleInWindow\<close> ends with an exception. (A window that
  cannot be read above a level that is already out of view is never read: the result is
  \<open>false\<close>.)
\<close>

theorem elementInView_outcomes:
  "(elementInView env elementId = Bool True \<longleftrightarrow>
      (\<exists>el. resolveElement env elementId = Some el \<and> chainInView el (getWindowSelf env)))
   \<and> (resolveElement env elementId = None \<longrightarrow> elementInView env elementId = Undefined)
   \<and> (\<forall>el. resolveElement env elementId = Some el \<longrightarrow>
        (elementInView env elementId = Undefined \<longleftrightarrow> accessThrows el (getWindowSelf env)))
   \<and> (elementInView env elementId = Undefined \<longleftrightarrow>
        (\<exists>e. visibleInWindow (resolveElement env elementId) (getWindowSelf env) = Inl e))"
proof -
  have a: "elementInView env elementId = Bool True \<longleftrightarrow>
      (\<exists>el. resolveElement env elementId = Some el \<and> chainInView el (getWindowSelf env))"
  proof (cases "resolveElement env elementId")
    case None
    then show ?thesis by (simp add: elementInView_def)
  next
    case (Some el)
    with visibleInWindow_True[of el "getWindowSelf env"] show ?thesis
      by (auto simp: elementInView_def split: sum.splits)
  qed
  have b: "resolveElement env elementId = None \<longrightarrow> elementInView env elementId = Undefined"
    by (simp add: elementInView_def)
  have d: "elementInView env elementId = Undefined \<longleftrightarrow>
        (\<exists>e. visibleInWindow (resolveElement env elementId) (getWindowSelf env) = Inl e)"
    by (auto simp: elementInView_def split: sum.splits)
  have c: "elementInView env elementId = Undefined \<longleftrightarrow> accessThrows el (getWindowSelf env)"
    if "resolveElement env elementId = Some el" for el
    using that d visibleInWindow_throws[of el "getWindowSelf env"] by simp
  from a b c d show ?thesis by blast
qed

theorem elementInView_outcomes_witness:
  "resolveElement (setupNestedWindows 13500 Map.empty) ''div-1'' = Some (createElement 17)
   \<and> chainInView (createElement 17) (getWindowSelf (setupNestedWindows 13500 Map.empty))
   \<and> elementInView (setupNestedWindows 13500 Map.empty) ''div-1'' = Bool True
   \<and> resolveElement (setupNestedWindows 13500 Map.empty) ''div-3'' = None
   \<and> elementInView (setupNestedWindows 13500 Map.empty) ''div-3'' = Undefined
   \<and> resolveElement setupFramedByOtherOrigin ''div-1'' = Some (createElement 17)
   \<and> accessThrows (createElement 17) (getWindowSelf setupFramedByOtherOrigin)
   \<and> elementInView setupFramedByOtherOrigin ''div-1'' = Undefined
   \<and> elementInView setupFramedByOtherOrigin ''div-2'' = Bool False"
proof -
  let ?env = "setupNestedWindows 13500 Map.empty"
  let ?env2 = "setupFramedByOtherOrigin"
  have r: "resolveElement ?env ''div-1'' = Some (createElement 17)"
    by (simp add: resolveElement_def setupNestedWindows_def placementElements_def)
  have c: "chainInView (createElement 17) (getWindowSelf ?env)"
    by (simp add: getWindowSelf_def setupNestedWindows_def midWin_def topWin_def
        createElement_def overlaps_def)
  have n: "resolveElement ?env ''div-3'' = None"
    by (simp add: resolveElement_def setupNestedWindows_def placementElements_def)
  from r c elementInView_outcomes[of ?env "''div-1''"]
  have t: "elementInView ?env ''div-1'' = Bool True" by blast
  from n elementInView_outcomes[of ?env "''div-3''"]
  have u: "elementInView ?env ''div-3'' = Undefined" by blast
  have r2: "resolveElement ?env2 ''div-1'' = Some (createElement 17)"
    by (simp add: resolveElement_def setupFramedByOtherOrigin_def)
  have a2: "accessThrows (createElement 17) (getWindowSelf ?env2)"
    by (simp add: getWindowSelf_def setupFramedByOtherOrigin_def otherOrigin_def
        createElement_def)
  from r2 a2 elementInView_outcomes[of ?env2 "''div-1''"]
  have u2: "elementInView ?env2 ''div-1'' = Undefined" by blast
  have f2: "elementInView ?env2 ''div-2'' = Bool False"
    by (simp add: elementInView_def resolveElement_def getWindowSelf_def
        setupFramedByOtherOrigin_def otherOrigin_def createElement_def)
  from r c t n u r2 a2 u2 f2 show ?thesis by blast
qed

section \<open>The response\<close>

lemma forEachBid_Inr:
  "forEachBid es = Inr out \<Longrightarrow>
   length out = length es \<and> (\<forall>i<length es. interpretBid (es ! i) = Inr (out ! i))"
proof (induction es arbitrary: out)
  case Nil
  then show ?case by simp
next
  case (Cons e es)
  from Cons.prems obtain b bs where
    b: "interpretBid e = Inr b" and bs: "forEachBid es = Inr bs" and out: "out = b # bs"
    by (auto simp: andThen_eq_Inr)
  from Cons.IH[OF bs] b out show ?case by (auto simp: nth_Cons split: nat.splits)
qed

lemma forEachBid_returns:
  "\<forall>e\<in>set es. e \<noteq> Undefined \<and> e \<noteq> Null \<Longrightarrow> \<exists>out. forEachBid es = Inr out"
  by (induction es) (auto simp: interpretBid_def getProp_def Let_def)

lemma interpretBid_Inr:
  assumes "e \<noteq> Undefined" and "e \<noteq> Null"
  shows "interpretBid e = Inr (Obj
     (if truthy (readProp e ''bidPriceOptimisation'')
      then [''requestId'' \<mapsto> readProp e ''bidId'',
            ''cpm'' \<mapsto> orElse (readProp e ''cpm'') (Num 0),
            ''width'' \<mapsto> orElse (readProp e ''width'') (Num 0),
            ''height'' \<mapsto> orElse (readProp e ''height'') (Num 0),
            ''ad'' \<mapsto> readProp e ''ad'',
            ''ttl'' \<mapsto> Num 300,
            ''currency'' \<mapsto> Str ''EUR'',
            ''netRevenue'' \<mapsto> Bool True,
            ''creativeId'' \<mapsto> Str []] ++ ownProperties (readProp e ''bidPriceOptimisation'')
      else [''requestId'' \<mapsto> readProp e ''bidId'',
            ''cpm'' \<mapsto> orElse (readProp e ''cpm'') (Num 0),
            ''width'' \<mapsto> orElse (readProp e ''width'') (Num 0),
            ''height'' \<mapsto> orElse (readProp e ''height'') (Num 0),
            ''ad'' \<mapsto> readProp e ''ad'',
            ''ttl'' \<mapsto> Num 300,
            ''currency'' \<mapsto> Str ''EUR'',
            ''netRevenue'' \<mapsto> Bool True,
            ''creativeId'' \<mapsto> Str []]))"
  using assms by (simp add: interpretBid_def getProp_def Let_def Object_assign_def)

lemma interpretBid_normalized:
  assumes "e \<noteq> Undefined" and "e \<noteq> Null"
  shows "\<exists>b. interpretBid e = Inr (Obj b) \<and> normalizedBid e b"
proof -
  define std where "std = [''requestId'' \<mapsto> readProp e ''bidId'',
            ''cpm'' \<mapsto> orElse (readProp e ''cpm'') (Num 0),
            ''width'' \<mapsto> orElse (readProp e ''width'') (Num 0),
            ''height'' \<mapsto> orElse (readProp e ''height'') (Num 0),
            ''ad'' \<mapsto> readProp e ''ad'',
            ''ttl'' \<mapsto> Num 300,
            ''currency'' \<mapsto> Str ''EUR'',
            ''netRevenue'' \<mapsto> Bool True,
            ''creativeId'' \<mapsto> Str []]"
  have std: "std ''requestId'' = Some (readProp e ''bidId'')"
    "std ''cpm'' = Some (orElse (readProp e ''cpm'') (Num 0))"
    "std ''width'' = Some (orElse (readProp e ''width'') (Num 0))"
    "std ''height'' = Some (orElse (readProp e ''height'') (Num 0))"
    "std ''ad'' = Some (readProp e ''ad'')"
    "std ''ttl'' = Some (Num 300)"
    "std ''currency'' = Some (Str ''EUR'')"
    "std ''netRevenue'' = Some (Bool True)"
    "std ''creativeId'' = Some (Str [])"
    by (simp_all add: std_def)
  have zero: "orElse v (Num 0) = Num 0" if "v = Undefined" for v
    using that by (simp add: orElse_def)
  have same: "orElse v (Num 0) = v" if "truthy v" for v
    using that by (simp add: orElse_def)
  show ?thesis
  proof (cases "truthy (readProp e ''bidPriceOptimisation'')")
    case False
    with assms have r: "interpretBid e = Inr (Obj std)"
      by (simp add: interpretBid_Inr std_def)
    from False have no: "readProp e ''bidPriceOptimisation'' \<noteq> Obj opt" for opt
      by auto
    from False have "normalizedBid e std"
      by (simp add: normalizedBid_def keeps_def std zero same no)
    with r show ?thesis by blast
  next
    case True
    let ?o = "ownProperties (readProp e ''bidPriceOptimisation'')"
    from True assms have r: "interpretBid e = Inr (Obj (std ++ ?o))"
      by (simp add: interpretBid_Inr std_def)
    have kept: "(std ++ ?o) k = std k" if "keeps (readProp e ''bidPriceOptimisation'') k" for k
      using that True by (simp add: keeps_def map_add_def)
    have over: "(std ++ ?o) k = Some v"
      if "readProp e ''bidPriceOptimisation'' = Obj opt" "opt k = Some v" for opt k v
      using that by (simp add: map_add_def)
    from kept over have "normalizedBid e (std ++ ?o)"
      unfolding normalizedBid_def by (simp add: std zero same)
    with r show ?thesis by blast
  qed
qed

text \<open>
  C8. The claim: for a response whose body is absent, empty, or not an object,
  \<open>interpretResponse\<close> returns the empty list and raises no error. An empty object and an
  array pass the guard \<open>body && typeof body === 'object'\<close> and have no \<open>bids\<close>:
  \<open>body.bids.forEach\<close> throws. What holds: for a response whose body is \<open>undefined\<close>,
  \<open>null\<close>, a string (the empty one included), a number or a boolean, \<open>interpretResponse\<close>
  returns the empty list: no exception, and no tracking call.
\<close>

theorem interpretResponse_not_object:
  assumes "\<forall>m. body serverResponse \<noteq> Obj m" and "\<forall>xs. body serverResponse \<noteq> Arr xs"
  shows "interpretResponse serverResponse = (Inr [], [])"
  using assms by (cases "body serverResponse") (simp_all add: interpretResponse_def)

theorem interpretResponse_not_object_witness:
  "interpretResponse \<lparr>body = Undefined\<rparr> = (Inr [], [])
   \<and> interpretResponse \<lparr>body = Null\<rparr> = (Inr [], [])
   \<and> interpretResponse \<lparr>body = Str []\<rparr> = (Inr [], [])
   \<and> interpretResponse \<lparr>body = Str ''  ''\<rparr> = (Inr [], [])
   \<and> interpretResponse \<lparr>body = Num 0\<rparr> = (Inr [], [])
   \<and> interpretResponse \<lparr>body = Bool True\<rparr> = (Inr [], [])"
  using interpretResponse_not_object[of "\<lparr>body = Undefined\<rparr>"]
    interpretResponse_not_object[of "\<lparr>body = Null\<rparr>"]
    interpretResponse_not_object[of "\<lparr>body = Str []\<rparr>"]
    interpretResponse_not_object[of "\<lparr>body = Str ''  ''\<rparr>"]
    interpretResponse_not_object[of "\<lparr>body = Num 0\<rparr>"]
    interpretResponse_not_object[of "\<lparr>body = Bool True\<rparr>"]
  by simp

text \<open>The empty object and the empty array as bodies: a TypeError.\<close>

theorem interpretResponse_not_object_counterexample:
  "interpretResponse \<lparr>body = Obj Map.empty\<rparr> = (Inl TypeError, [])
   \<and> interpretResponse \<lparr>body = Arr []\<rparr> = (Inl TypeError, [])"
  by (simp add: interpretResponse_def)

text \<open>
  So does an object without a list of bids, as the legacy redirect of the adapter's test
  "should ignore legacy (prebid < 1.0) redirect", which asserts that the call throws.
\<close>

lemma interpretResponse_legacy_redirect_throws:
  "interpretResponse \<lparr>body = Obj [''redirect'' \<mapsto> Str ''http://somewhere.com/over'']\<rparr>
     = (Inl TypeError, [])"
  by (simp add: interpretResponse_def)

text \<open>
  C9. For a body with a list of bids none of which is \<open>null\<close>, \<open>interpretResponse\<close> returns
  one bid for each entry, in order, and each is a normalized bid of its entry: for every
  key that the price-optimisation value of the entry does not write, \<open>cpm\<close>, \<open>width\<close> and
  \<open>height\<close> are 0 where the entry has none, and the entry's own where that is truthy;
  \<open>requestId\<close> is the \<open>bidId\<close> of the entry, \<open>ad\<close> its \<open>ad\<close>, \<open>ttl\<close> is 300, \<open>currency\<close> is
  \<open>"EUR"\<close>, \<open>netRevenue\<close> is true and \<open>creativeId\<close> is empty. And where
  \<open>bidPriceOptimisation\<close> is an object, each of its properties is in the bid with its
  value, a standard field of the same name notwithstanding.
\<close>

theorem interpretResponse_bids:
  assumes "body serverResponse = Obj m" and "m ''bids'' = Some (Arr entries)"
    and "\<forall>e\<in>set entries. e \<noteq> Undefined \<and> e \<noteq> Null"
  shows "\<exists>out. fst (interpretResponse serverResponse) = Inr out \<and> length out = length entries \<and>
     (\<forall>i<length entries. \<exists>b. out ! i = Obj b \<and> normalizedBid (entries ! i) b)"
proof -
  from forEachBid_returns[OF assms(3)] obtain out where out: "forEachBid entries = Inr out" ..
  from assms(1,2) out have res: "fst (interpretResponse serverResponse) = Inr out"
    by (simp add: interpretResponse_def Let_def)
  from forEachBid_Inr[OF out] have len: "length out = length entries"
    and each: "\<forall>i<length entries. interpretBid (entries ! i) = Inr (out ! i)" by simp_all
  have "\<exists>b. out ! i = Obj b \<and> normalizedBid (entries ! i) b" if i: "i < length entries" for i
  proof -
    from i assms(3) have "entries ! i \<noteq> Undefined" "entries ! i \<noteq> Null" by auto
    from interpretBid_normalized[OF this] each i show ?thesis by auto
  qed
  with res len show ?thesis by blast
qed

theorem interpretResponse_bids_witness:
  "\<exists>out b. fst (interpretResponse \<lparr>body = Obj [''bids'' \<mapsto> Arr [Obj [''bidId'' \<mapsto> Str ''bid1'',
                 ''bidPriceOptimisation'' \<mapsto>
                    Obj [''cp'' \<mapsto> Num 4, ''ropFactor'' \<mapsto> Num 1.2, ''ttl'' \<mapsto> Num 60]]]]\<rparr>)
            = Inr out
      \<and> length out = 1 \<and> out ! 0 = Obj b
      \<and> b ''requestId'' = Some (Str ''bid1'')
      \<and> b ''cpm'' = Some (Num 0) \<and> b ''width'' = Some (Num 0) \<and> b ''height'' = Some (Num 0)
      \<and> b ''currency'' = Some (Str ''EUR'')
      \<and> b ''netRevenue'' = Some (Bool True) \<and> b ''creativeId'' = Some (Str [])
      \<and> b ''cp'' = Some (Num 4) \<and> b ''ropFactor'' = Some (Num 1.2) \<and> b ''ttl'' = Some (Num 60)"
proof -
  let ?opt = "[''cp'' \<mapsto> Num 4, ''ropFactor'' \<mapsto> Num 1.2, ''ttl'' \<mapsto> Num 60]"
  let ?e = "Obj [''bidId'' \<mapsto> Str ''bid1'', ''bidPriceOptimisation'' \<mapsto> Obj ?opt]"
  let ?m = "[''bids'' \<mapsto> Arr [?e]]"
  have "\<exists>out. fst (interpretResponse \<lparr>body = Obj ?m\<rparr>) = Inr out \<and> length out = length [?e] \<and>
     (\<forall>i<length [?e]. \<exists>b. out ! i = Obj b \<and> normalizedBid ([?e] ! i) b)"
    by (rule interpretResponse_bids[of "\<lparr>body = Obj ?m\<rparr>" ?m "[?e]"]) simp_all
  then obtain out b where o: "fst (interpretResponse \<lparr>body = Obj ?m\<rparr>) = Inr out"
    and l: "length out = 1" and b: "out ! 0 = Obj b" and n: "normalizedBid ?e b"
    by auto
  from n have 1: "b ''cpm'' = Some (Num 0)" "b ''width'' = Some (Num 0)"
    "b ''height'' = Some (Num 0)" "b ''requestId'' = Some (Str ''bid1'')"
    "b ''currency'' = Some (Str ''EUR'')" "b ''netRevenue'' = Some (Bool True)"
    "b ''creativeId'' = Some (Str [])"
    by (simp_all add: normalizedBid_def keeps_def)
  from n have 3: "b ''cp'' = Some (Num 4)" "b ''ropFactor'' = Some (Num 1.2)"
    "b ''ttl'' = Some (Num 60)"
    by (simp_all add: normalizedBid_def)
  from o l b 1 3 show ?thesis by blast
qed

end
